theory Spec2Isabelle
  imports Complex_Main
begin

section \<open>Numbers\<close>

text \<open>
  A JavaScript number that holds a finite value is a rational number.  Amounts, balances,
  weights and rates are therefore modelled as \<^typ>\<open>rat\<close> with exact arithmetic; the rounding error
  of IEEE-754 arithmetic, NaN and the infinities are outside the model.  \<open>Math.round\<close> rounds
  to the nearest integer, a tie going towards plus infinity.
\<close>

definition Math_round :: "rat \<Rightarrow> int" where
  "Math_round x = \<lfloor>x + 1 / 2\<rfloor>"

text \<open>The idiom \<open>Math.round(x * 100) / 100\<close> of the services and of the domain classes.\<close>

definition round2 :: "rat \<Rightarrow> rat" where
  "round2 x = of_int (Math_round (x * 100)) / 100"

section \<open>Domain classes\<close>

datatype tx_type =
  payment | cashback | topup | transfer_out | transfer_in | bill_split | split_settlement | refund

datatype tx_status = tx_pending | tx_ok | tx_failed | tx_cancelled

datatype split_status = pending | settled | cancelled

datatype rule_type = percent | flat

text \<open>
  Exceptions: a constructor that rejects its arguments, a statement that SQLite rejects, and a
  property read on \<open>null\<close>.
\<close>

datatype exn = ValidationError | SqliteError | TypeError

text \<open>
  \<open>Transaction\<close> (src/domain/Transaction.js).  The metadata object is a list of key/value
  pairs; timestamps are left out of every row.
\<close>

record Transaction =
  txId :: string
  userId :: string
  merchantId :: "string option"
  amount :: rat
  currency :: string
  txType :: tx_type
  status :: tx_status
  meta :: "(string \<times> string) list"

definition Transaction_validate :: "Transaction \<Rightarrow> exn + Transaction" where
  "Transaction_validate t =
     (if txId t = [] then Inl ValidationError
      else if userId t = [] then Inl ValidationError
      else if amount t = 0 \<or> amount t \<le> 0 then Inl ValidationError
      else Inr t)"

definition increasesBalance :: "Transaction \<Rightarrow> bool" where
  "increasesBalance t = (txType t \<in> {cashback, topup, transfer_in})"

definition decreasesBalance :: "Transaction \<Rightarrow> bool" where
  "decreasesBalance t = (txType t \<in> {payment, transfer_out, bill_split})"

text \<open>\<open>BillSplit\<close>; \<open>splitId\<close> is \<open>null\<close> until the row is inserted.\<close>

record BillSplit =
  splitId :: "nat option"
  bs_txId :: string
  payerUserId :: string
  debtorUserId :: string
  totalAmount :: rat
  shareAmount :: rat
  weight :: rat
  bs_status :: split_status

definition BillSplit_validate :: "BillSplit \<Rightarrow> exn + BillSplit" where
  "BillSplit_validate b =
     (if bs_txId b = [] then Inl ValidationError
      else if payerUserId b = [] then Inl ValidationError
      else if debtorUserId b = [] then Inl ValidationError
      else if payerUserId b = debtorUserId b then Inl ValidationError
      else if totalAmount b = 0 \<or> totalAmount b \<le> 0 then Inl ValidationError
      else if shareAmount b = 0 \<or> shareAmount b \<le> 0 then Inl ValidationError
      else if shareAmount b > totalAmount b then Inl ValidationError
      else if weight b \<le> 0 then Inl ValidationError
      else Inr b)"

definition isSettled :: "BillSplit \<Rightarrow> bool" where
  "isSettled b = (bs_status b = settled)"

definition isPending :: "BillSplit \<Rightarrow> bool" where
  "isPending b = (bs_status b = pending)"

text \<open>\<open>Wallet\<close>.\<close>

record Wallet =
  w_userId :: string
  balance :: rat
  w_currency :: string

definition Wallet_validate :: "Wallet \<Rightarrow> exn + Wallet" where
  "Wallet_validate w =
     (if w_userId w = [] then Inl ValidationError
      else if balance w < 0 then Inl ValidationError
      else if w_currency w = [] then Inl ValidationError
      else Inr w)"

definition hasSufficientFunds :: "Wallet \<Rightarrow> rat \<Rightarrow> bool" where
  "hasSufficientFunds w a = (balance w \<ge> a)"

text \<open>The two mutators of the class; no service calls them.\<close>

definition credit :: "Wallet \<Rightarrow> rat \<Rightarrow> exn + Wallet" where
  "credit w a =
     (if a \<le> 0 then Inl ValidationError
      else Inr (w\<lparr>balance := round2 (balance w + a)\<rparr>))"

definition debit :: "Wallet \<Rightarrow> rat \<Rightarrow> exn + Wallet" where
  "debit w a =
     (if a \<le> 0 then Inl ValidationError
      else if a > balance w then Inl ValidationError
      else Inr (w\<lparr>balance := round2 (balance w - a)\<rparr>))"

text \<open>\<open>User\<close>; a valid phone number matches \<open>^\+90[0-9]{10}$\<close>.\<close>

record User =
  u_userId :: string
  u_name :: string
  u_phone :: string

definition isValidPhone :: "string \<Rightarrow> bool" where
  "isValidPhone p =
     (take 3 p = ''+90'' \<and> length p = 13 \<and> list_all (\<lambda>c. c \<in> set ''0123456789'') (drop 3 p))"

definition User_validate :: "User \<Rightarrow> exn + User" where
  "User_validate u =
     (if u_userId u = [] then Inl ValidationError
      else if u_name u = [] then Inl ValidationError
      else if u_phone u = [] \<or> \<not> isValidPhone (u_phone u) then Inl ValidationError
      else Inr u)"

text \<open>Rows of the tables \<open>merchants\<close> and \<open>cashback_rules\<close> (database/schema.sql).  Dates are
  day numbers; a \<open>NULL\<close> cap or date is \<open>None\<close>.\<close>

record Merchant =
  merchant_id :: string
  m_name :: string
  m_category :: string

record CashbackRule =
  rule_id :: string
  rule_type :: rule_type
  category :: string
  rate :: rat
  flat_amount :: rat
  cap :: "rat option"
  first_time_only :: bool
  starts_at :: "nat option"
  ends_at :: "nat option"
  active :: bool

section \<open>The database\<close>

record db =
  users :: "User list"
  merchants :: "Merchant list"
  wallets :: "Wallet list"
  transactions :: "Transaction list"
  bill_splits :: "BillSplit list"
  cashback_rules :: "CashbackRule list"
  split_seq :: nat

text \<open>
  The world a service call runs in: the tables, the faults the storage layer is going to
  report (one flag per statement sent to SQLite, \<open>True\<close> for a statement that fails; no fault once
  the list is used up) and the strings \<open>uuidv4()\<close> is going to return.
\<close>

record sys =
  store :: db
  faults :: "bool list"
  uuids :: "string list"

type_synonym 'a io = "sys \<Rightarrow> (exn + 'a) \<times> sys"

definition ret :: "'a \<Rightarrow> 'a io" where
  "ret x = (\<lambda>s. (Inr x, s))"

definition throw :: "exn \<Rightarrow> 'a io" where
  "throw e = (\<lambda>s. (Inl e, s))"

definition lift :: "exn + 'a \<Rightarrow> 'a io" where
  "lift r = (\<lambda>s. (r, s))"

definition bnd :: "'a io \<Rightarrow> ('a \<Rightarrow> 'b io) \<Rightarrow> 'b io" where
  "bnd m f = (\<lambda>s. case m s of (Inl e, s') \<Rightarrow> (Inl e, s') | (Inr x, s') \<Rightarrow> f x s')"

definition try_catch :: "'a io \<Rightarrow> (exn \<Rightarrow> 'a io) \<Rightarrow> 'a io" where
  "try_catch m h = (\<lambda>s. case m s of (Inl e, s') \<Rightarrow> h e s' | (Inr x, s') \<Rightarrow> (Inr x, s'))"

definition fault :: "unit io" where
  "fault = (\<lambda>s. case faults s of
               [] \<Rightarrow> (Inr (), s)
             | b # bs \<Rightarrow> (if b then Inl SqliteError else Inr (), s\<lparr>faults := bs\<rparr>))"

definition uuidv4 :: "string io" where
  "uuidv4 = (\<lambda>s. case uuids s of
               [] \<Rightarrow> (Inr ''00000000-0000-4000-8000-000000000000'', s)
             | u # us \<Rightarrow> (Inr u, s\<lparr>uuids := us\<rparr>))"

text \<open>The statements the services send.\<close>

datatype statement =
    UPDATE_wallets_minus rat string
  | UPDATE_wallets_plus rat string
  | INSERT_transactions Transaction
  | INSERT_bill_splits BillSplit
  | UPDATE_bill_splits_status split_status nat

text \<open>
  What SQLite does with one statement.  An \<open>UPDATE\<close> changes every row that matches and
  succeeds when none does.  An \<open>INSERT\<close> is rejected by the primary key, by a foreign key
  (\<open>PRAGMA foreign_keys = ON\<close>) or by the \<open>CHECK\<close> on the transaction type.
\<close>

definition type_check :: "tx_type \<Rightarrow> bool" where
  "type_check ty = (ty \<in> {payment, cashback, topup, transfer_out, transfer_in, bill_split})"

fun exec :: "statement \<Rightarrow> db \<Rightarrow> exn + db" where
  "exec (UPDATE_wallets_minus a u) d =
     Inr (d\<lparr>wallets := map (\<lambda>w. if w_userId w = u then w\<lparr>balance := balance w - a\<rparr> else w)
                           (wallets d)\<rparr>)"
| "exec (UPDATE_wallets_plus a u) d =
     Inr (d\<lparr>wallets := map (\<lambda>w. if w_userId w = u then w\<lparr>balance := balance w + a\<rparr> else w)
                           (wallets d)\<rparr>)"
| "exec (INSERT_transactions t) d =
     (if txId t \<in> set (map txId (transactions d)) then Inl SqliteError
      else if userId t \<notin> set (map u_userId (users d)) then Inl SqliteError
      else if (case merchantId t of None \<Rightarrow> False
               | Some m \<Rightarrow> m \<notin> set (map merchant_id (merchants d))) then Inl SqliteError
      else if \<not> type_check (txType t) then Inl SqliteError
      else Inr (d\<lparr>transactions := transactions d @ [t]\<rparr>))"
| "exec (INSERT_bill_splits b) d =
     (if bs_txId b \<notin> set (map txId (transactions d)) then Inl SqliteError
      else if payerUserId b \<notin> set (map u_userId (users d)) then Inl SqliteError
      else if debtorUserId b \<notin> set (map u_userId (users d)) then Inl SqliteError
      else Inr (d\<lparr>bill_splits := bill_splits d @ [b\<lparr>splitId := Some (Suc (split_seq d))\<rparr>],
                  split_seq := Suc (split_seq d)\<rparr>))"
| "exec (UPDATE_bill_splits_status st i) d =
     Inr (d\<lparr>bill_splits := map (\<lambda>b. if splitId b = Some i then b\<lparr>bs_status := st\<rparr> else b)
                               (bill_splits d)\<rparr>)"

text \<open>\<open>Database.get\<close>, \<open>Database.query\<close> and \<open>Database.run\<close>.\<close>

definition Database_get :: "(db \<Rightarrow> 'a option) \<Rightarrow> 'a option io" where
  "Database_get q = bnd fault (\<lambda>_ s. (Inr (q (store s)), s))"

definition Database_query :: "(db \<Rightarrow> 'a list) \<Rightarrow> 'a list io" where
  "Database_query q = bnd fault (\<lambda>_ s. (Inr (q (store s)), s))"

definition Database_run :: "statement \<Rightarrow> unit io" where
  "Database_run st =
     bnd fault (\<lambda>_ s. case exec st (store s) of
                         Inl e \<Rightarrow> (Inl e, s)
                       | Inr d \<Rightarrow> (Inr (), s\<lparr>store := d\<rparr>))"

text \<open>
  \<open>Database.transaction\<close>: \<open>BEGIN TRANSACTION\<close>, the statements in order, \<open>COMMIT\<close>.  The first
  statement that fails makes the promise reject after a \<open>ROLLBACK\<close>, which restores the tables
  as they were at \<open>BEGIN\<close>.
\<close>

fun run_all :: "statement list \<Rightarrow> db \<Rightarrow> bool list \<Rightarrow> (exn + db) \<times> bool list" where
  "run_all [] d fs = (Inr d, fs)"
| "run_all (st # sts) d [] =
     (case exec st d of Inl e \<Rightarrow> (Inl e, []) | Inr d' \<Rightarrow> run_all sts d' [])"
| "run_all (st # sts) d (f # fs) =
     (if f then (Inl SqliteError, fs)
      else (case exec st d of Inl e \<Rightarrow> (Inl e, fs) | Inr d' \<Rightarrow> run_all sts d' fs))"

definition Database_transaction :: "statement list \<Rightarrow> unit io" where
  "Database_transaction sts =
     (\<lambda>s. case run_all sts (store s) (faults s) of
            (Inl e, fs) \<Rightarrow> (Inl e, s\<lparr>faults := fs\<rparr>)
          | (Inr d, fs) \<Rightarrow> (Inr (), s\<lparr>store := d, faults := fs\<rparr>))"

section \<open>Repositories\<close>

definition SELECT_wallet :: "string \<Rightarrow> db \<Rightarrow> Wallet option" where
  "SELECT_wallet u d = find (\<lambda>w. w_userId w = u) (wallets d)"

definition WalletRepository_findByUserId :: "string \<Rightarrow> Wallet option io" where
  "WalletRepository_findByUserId u =
     bnd (Database_get (SELECT_wallet u)) (\<lambda>row.
       case row of None \<Rightarrow> ret None
       | Some w \<Rightarrow> bnd (lift (Wallet_validate w)) (\<lambda>w'. ret (Some w')))"

definition WalletRepository_hasSufficientFunds :: "string \<Rightarrow> rat \<Rightarrow> bool io" where
  "WalletRepository_hasSufficientFunds u a =
     bnd (WalletRepository_findByUserId u) (\<lambda>wallet.
       ret (case wallet of None \<Rightarrow> False | Some w \<Rightarrow> hasSufficientFunds w a))"

definition SELECT_transaction :: "string \<Rightarrow> db \<Rightarrow> Transaction option" where
  "SELECT_transaction i d = find (\<lambda>t. txId t = i) (transactions d)"

definition TransactionRepository_findById :: "string \<Rightarrow> Transaction option io" where
  "TransactionRepository_findById i =
     bnd (Database_get (SELECT_transaction i)) (\<lambda>row.
       case row of None \<Rightarrow> ret None
       | Some t \<Rightarrow> bnd (lift (Transaction_validate t)) (\<lambda>t'. ret (Some t')))"

definition TransactionRepository_create :: "Transaction \<Rightarrow> unit io" where
  "TransactionRepository_create t = Database_run (INSERT_transactions t)"

definition SELECT_user :: "string \<Rightarrow> db \<Rightarrow> User option" where
  "SELECT_user u d = find (\<lambda>r. u_userId r = u) (users d)"

definition UserRepository_findById :: "string \<Rightarrow> User option io" where
  "UserRepository_findById u =
     bnd (Database_get (SELECT_user u)) (\<lambda>row.
       case row of None \<Rightarrow> ret None
       | Some r \<Rightarrow> bnd (lift (User_validate r)) (\<lambda>r'. ret (Some r')))"

definition UserRepository_exists :: "string \<Rightarrow> bool io" where
  "UserRepository_exists u = bnd (UserRepository_findById u) (\<lambda>user. ret (user \<noteq> None))"

definition SELECT_bill_split :: "nat \<Rightarrow> db \<Rightarrow> BillSplit option" where
  "SELECT_bill_split i d = find (\<lambda>b. splitId b = Some i) (bill_splits d)"

definition BillSplitRepository_findById :: "nat \<Rightarrow> BillSplit option io" where
  "BillSplitRepository_findById i =
     bnd (Database_get (SELECT_bill_split i)) (\<lambda>row.
       case row of None \<Rightarrow> ret None
       | Some b \<Rightarrow> bnd (lift (BillSplit_validate b)) (\<lambda>b'. ret (Some b')))"

definition BillSplitRepository_createMultiple :: "BillSplit list \<Rightarrow> unit io" where
  "BillSplitRepository_createMultiple billSplits =
     Database_transaction (map INSERT_bill_splits billSplits)"

definition BillSplitRepository_settle :: "nat \<Rightarrow> unit io" where
  "BillSplitRepository_settle i = Database_run (UPDATE_bill_splits_status settled i)"

definition BillSplitRepository_cancel :: "nat \<Rightarrow> unit io" where
  "BillSplitRepository_cancel i = Database_run (UPDATE_bill_splits_status cancelled i)"

text \<open>\<open>Promise.all(xs.map(f))\<close>, run in order.\<close>

fun mapM :: "('a \<Rightarrow> 'b io) \<Rightarrow> 'a list \<Rightarrow> 'b list io" where
  "mapM f [] = ret []"
| "mapM f (x # xs) = bnd (f x) (\<lambda>y. bnd (mapM f xs) (\<lambda>ys. ret (y # ys)))"

section \<open>Results\<close>

text \<open>
  A service returns \<open>{success: false, message}\<close> or \<open>{success: true, message, data}\<close>.  Each
  message of the source is one constructor.
\<close>

datatype message =
    IdsRequired | PaymentIdsRequired | SelfTransfer | InvalidAmount | SenderWalletNotFound | ReceiverWalletNotFound
  | WalletNotFound | InsufficientFunds | TransferError | PaymentError | TopUpError
  | QRFormat | QRIncomplete | QRAmount | QRExpired | QRError
  | InvalidParameters | NoDebtor | InvalidWeights | OriginalNotFound | NotYourTransaction
  | UserNotFound | EqualSplitError | WeightedSplitError
  | SplitNotFound | OnlyDebtor | AlreadySettled | SettleError
  | OnlyPayer | SettledNotCancellable | CancelError

datatype 'a result = Failure message | Success 'a

definition success :: "'a result \<Rightarrow> bool" where
  "success r = (case r of Failure _ \<Rightarrow> False | Success _ \<Rightarrow> True)"

section \<open>PaymentService\<close>

record TransferData =
  outTransactionId :: string
  inTransactionId :: string
  td_amount :: rat

definition new_Transaction ::
  "string \<Rightarrow> string \<Rightarrow> rat \<Rightarrow> string \<Rightarrow> tx_type \<Rightarrow> tx_status \<Rightarrow> string option
     \<Rightarrow> (string \<times> string) list \<Rightarrow> Transaction io" where
  "new_Transaction i u a c ty st m mt =
     lift (Transaction_validate
       \<lparr>txId = i, userId = u, merchantId = m, amount = a, currency = c, txType = ty,
        status = st, meta = mt\<rparr>)"

definition PaymentService_transferMoney ::
  "string \<Rightarrow> string \<Rightarrow> rat \<Rightarrow> TransferData result io" where
  "PaymentService_transferMoney fromUserId toUserId amt =
     try_catch
       (if fromUserId = [] \<or> toUserId = [] then ret (Failure IdsRequired)
        else if fromUserId = toUserId then ret (Failure SelfTransfer)
        else if amt \<le> 0 then ret (Failure InvalidAmount)
        else
          bnd (WalletRepository_findByUserId fromUserId) (\<lambda>fromWallet.
          bnd (WalletRepository_findByUserId toUserId) (\<lambda>toWallet.
            case fromWallet of
              None \<Rightarrow> ret (Failure SenderWalletNotFound)
            | Some fw \<Rightarrow>
               (case toWallet of
                  None \<Rightarrow> ret (Failure ReceiverWalletNotFound)
                | Some tw \<Rightarrow>
                   if \<not> hasSufficientFunds fw amt then ret (Failure InsufficientFunds)
                   else
                     bnd uuidv4 (\<lambda>u1.
                     bnd uuidv4 (\<lambda>u2.
                       let outTxId = ''TX_OUT_'' @ take 8 u1;
                           inTxId = ''TX_IN_'' @ take 8 u2
                       in
                       bnd (new_Transaction outTxId fromUserId amt ''TRY'' transfer_out tx_ok None
                              [(''to_user'', toUserId), (''related_tx'', inTxId)])
                         (\<lambda>outTransaction.
                       bnd (new_Transaction inTxId toUserId amt ''TRY'' transfer_in tx_ok None
                              [(''from_user'', fromUserId), (''related_tx'', outTxId)])
                         (\<lambda>inTransaction.
                       bnd (Database_transaction
                              [UPDATE_wallets_minus amt fromUserId,
                               UPDATE_wallets_plus amt toUserId,
                               INSERT_transactions outTransaction,
                               INSERT_transactions inTransaction])
                         (\<lambda>_.
                       ret (Success \<lparr>outTransactionId = outTxId, inTransactionId = inTxId,
                                     td_amount = amt\<rparr>))))))))))
       (\<lambda>error. ret (Failure TransferError))"

record PaymentData =
  transactionId :: string
  pd_amount :: rat
  pd_merchantId :: "string option"
  newBalance :: rat

definition processPayment :: "string \<Rightarrow> string \<Rightarrow> rat \<Rightarrow> PaymentData result io" where
  "processPayment uid mid amt =
     try_catch
       (if uid = [] \<or> mid = [] then ret (Failure PaymentIdsRequired)
        else if amt \<le> 0 then ret (Failure InvalidAmount)
        else
          bnd (WalletRepository_findByUserId uid) (\<lambda>wallet.
            case wallet of
              None \<Rightarrow> ret (Failure WalletNotFound)
            | Some w \<Rightarrow>
               if \<not> hasSufficientFunds w amt then ret (Failure InsufficientFunds)
               else
                 bnd uuidv4 (\<lambda>u1.
                   let tid = ''TX_PAY_'' @ take 8 u1 in
                   bnd (new_Transaction tid uid amt ''TRY'' payment tx_ok (Some mid)
                          [(''payment_method'', ''wallet'')])
                     (\<lambda>transaction.
                   bnd (Database_transaction
                          [UPDATE_wallets_minus amt uid, INSERT_transactions transaction])
                     (\<lambda>_.
                   ret (Success \<lparr>transactionId = tid, pd_amount = amt,
                                 pd_merchantId = Some mid, newBalance = balance w - amt\<rparr>))))))
       (\<lambda>error. ret (Failure PaymentError))"

definition topUpWallet :: "string \<Rightarrow> rat \<Rightarrow> PaymentData result io" where
  "topUpWallet uid amt =
     try_catch
       (if amt \<le> 0 then ret (Failure InvalidAmount)
        else
          bnd (WalletRepository_findByUserId uid) (\<lambda>wallet.
            case wallet of
              None \<Rightarrow> ret (Failure WalletNotFound)
            | Some w \<Rightarrow>
                 bnd uuidv4 (\<lambda>u1.
                   let tid = ''TX_TOP_'' @ take 8 u1 in
                   bnd (new_Transaction tid uid amt ''TRY'' topup tx_ok None
                          [(''method'', ''bank_transfer'')])
                     (\<lambda>transaction.
                   bnd (Database_transaction
                          [UPDATE_wallets_plus amt uid, INSERT_transactions transaction])
                     (\<lambda>_.
                   ret (Success \<lparr>transactionId = tid, pd_amount = amt,
                                 pd_merchantId = None, newBalance = balance w + amt\<rparr>))))))
       (\<lambda>error. ret (Failure TopUpError))"

text \<open>
  The QR payload.  \<open>Unparsable\<close> is a string that \<open>JSON.parse\<close> rejects, \<open>Null\<close> a payload whose
  properties cannot be read, \<open>Info\<close> an object, given as such or parsed from a string.  A field
  that is absent or empty is the empty string.  The amount is absent or falsy (\<open>NoAmount\<close>,
  and the number 0), something \<open>parseFloat\<close> reads as NaN (\<open>NotNumeric\<close>), or a number.  The time
  stamp is absent, a date that does not parse, or milliseconds since the epoch.
\<close>

datatype qr_amount = NoAmount | NotNumeric | Amount rat

datatype qr_ts = NoTs | InvalidTs | Ts int

record qr_info =
  qr_id :: string
  qr_merchant_id :: string
  qr_amount :: qr_amount
  ts :: qr_ts

datatype qr_data = Unparsable | Null | Info qr_info

definition expired :: "int \<Rightarrow> qr_ts \<Rightarrow> bool" where
  "expired now t =
     (case t of
        NoTs \<Rightarrow> False
      | InvalidTs \<Rightarrow> False
      | Ts qrTimestamp \<Rightarrow> (of_int (now - qrTimestamp) :: rat) / (1000 * 60 * 60) > 24)"

definition processQRPayment ::
  "int \<Rightarrow> string \<Rightarrow> qr_data \<Rightarrow> (PaymentData \<times> string) result io" where
  "processQRPayment now uid qrData =
     try_catch
       (case qrData of
          Unparsable \<Rightarrow> ret (Failure QRFormat)
        | Null \<Rightarrow> throw TypeError
        | Info qrInfo \<Rightarrow>
            if qr_id qrInfo = [] \<or> qr_merchant_id qrInfo = []
               \<or> qr_amount qrInfo = NoAmount \<or> qr_amount qrInfo = Amount 0
            then ret (Failure QRIncomplete)
            else
              (case qr_amount qrInfo of
                 NoAmount \<Rightarrow> ret (Failure QRAmount)
               | NotNumeric \<Rightarrow> ret (Failure QRAmount)
               | Amount amt \<Rightarrow>
                   if amt \<le> 0 then ret (Failure QRAmount)
                   else if expired now (ts qrInfo) then ret (Failure QRExpired)
                   else
                     bnd (processPayment uid (qr_merchant_id qrInfo) amt) (\<lambda>result.
                       case result of
                         Success d \<Rightarrow>
                           ret (Success (d\<lparr>pd_merchantId := Some (qr_merchant_id qrInfo)\<rparr>,
                                         qr_id qrInfo))
                       | Failure m \<Rightarrow> ret (Failure m))))
       (\<lambda>error. ret (Failure QRError))"

section \<open>BillSplitService\<close>

definition new_BillSplit ::
  "nat option \<Rightarrow> string \<Rightarrow> string \<Rightarrow> string \<Rightarrow> rat \<Rightarrow> rat \<Rightarrow> rat \<Rightarrow> split_status
     \<Rightarrow> BillSplit io" where
  "new_BillSplit i t p dbt tot sh wt st =
     lift (BillSplit_validate
       \<lparr>splitId = i, bs_txId = t, payerUserId = p, debtorUserId = dbt, totalAmount = tot,
        shareAmount = sh, weight = wt, bs_status = st\<rparr>)"

record SplitData =
  sd_originalTxId :: string
  sd_totalAmount :: rat
  sd_debtorCount :: nat
  sd_splits :: "(string \<times> rat \<times> rat) list"

definition createEqualSplit :: "string \<Rightarrow> string \<Rightarrow> string list \<Rightarrow> SplitData result io" where
  "createEqualSplit payer originalTxId debtorUserIds =
     try_catch
       (if payer = [] \<or> originalTxId = [] \<or> length debtorUserIds = 0
        then ret (Failure InvalidParameters)
        else
          let filteredDebtors = filter (\<lambda>i. i \<noteq> payer) debtorUserIds in
          if length filteredDebtors = 0 then ret (Failure NoDebtor)
          else
            bnd (TransactionRepository_findById originalTxId) (\<lambda>originalTx.
              case originalTx of
                None \<Rightarrow> ret (Failure OriginalNotFound)
              | Some otx \<Rightarrow>
                  if userId otx \<noteq> payer then ret (Failure NotYourTransaction)
                  else
                    bnd (mapM UserRepository_exists filteredDebtors) (\<lambda>userValidations.
                      if list_ex (\<lambda>e. \<not> e) userValidations then ret (Failure UserNotFound)
                      else
                        let totalUsers = length filteredDebtors + 1;
                            share = round2 (amount otx / of_nat totalUsers)
                        in
                        bnd (mapM (\<lambda>dbt. new_BillSplit None originalTxId payer dbt (amount otx)
                                            share 1 pending)
                               filteredDebtors)
                          (\<lambda>billSplits.
                        bnd (BillSplitRepository_createMultiple billSplits) (\<lambda>_.
                        ret (Success \<lparr>sd_originalTxId = originalTxId,
                                      sd_totalAmount = amount otx,
                                      sd_debtorCount = length filteredDebtors,
                                      sd_splits = map (\<lambda>b. (debtorUserId b, shareAmount b,
                                                              weight b)) billSplits\<rparr>))))))
       (\<lambda>error. ret (Failure EqualSplitError))"

definition createWeightedSplit ::
  "string \<Rightarrow> string \<Rightarrow> (string \<times> rat) list \<Rightarrow> SplitData result io" where
  "createWeightedSplit payer originalTxId debtorWeights =
     try_catch
       (if payer = [] \<or> originalTxId = [] \<or> length debtorWeights = 0
        then ret (Failure InvalidParameters)
        else
          let filteredDebtors = filter (\<lambda>item. fst item \<noteq> payer) debtorWeights in
          if length filteredDebtors = 0 then ret (Failure NoDebtor)
          else if list_ex (\<lambda>item. snd item \<le> 0) filteredDebtors
          then ret (Failure InvalidWeights)
          else
            bnd (TransactionRepository_findById originalTxId) (\<lambda>originalTx.
              case originalTx of
                None \<Rightarrow> ret (Failure OriginalNotFound)
              | Some otx \<Rightarrow>
                  if userId otx \<noteq> payer then ret (Failure NotYourTransaction)
                  else
                    bnd (mapM (\<lambda>item. UserRepository_exists (fst item)) filteredDebtors)
                      (\<lambda>userValidations.
                      if list_ex (\<lambda>e. \<not> e) userValidations then ret (Failure UserNotFound)
                      else
                        let totalWeight = foldl (\<lambda>sum item. sum + snd item) 0 filteredDebtors
                        in
                        bnd (mapM (\<lambda>item.
                                     new_BillSplit None originalTxId payer (fst item) (amount otx)
                                       (round2 (amount otx * snd item / totalWeight))
                                       (snd item) pending)
                               filteredDebtors)
                          (\<lambda>billSplits.
                        bnd (BillSplitRepository_createMultiple billSplits) (\<lambda>_.
                        ret (Success \<lparr>sd_originalTxId = originalTxId,
                                      sd_totalAmount = amount otx,
                                      sd_debtorCount = length filteredDebtors,
                                      sd_splits = map (\<lambda>b. (debtorUserId b, shareAmount b,
                                                              weight b)) billSplits\<rparr>))))))
       (\<lambda>error. ret (Failure WeightedSplitError))"

text \<open>
  The transfer of \<open>BillSplitService\<close>, "used internally": it checks nothing and throws
  what the storage layer throws.
\<close>

definition BillSplitService_transferMoney ::
  "string \<Rightarrow> string \<Rightarrow> rat \<Rightarrow> TransferData result io" where
  "BillSplitService_transferMoney fromUserId toUserId amt =
     try_catch
       (bnd uuidv4 (\<lambda>u1.
        bnd uuidv4 (\<lambda>u2.
          let outTxId = ''TX_SPLIT_'' @ take 8 u1;
              inTxId = ''TX_SPLIT_'' @ take 8 u2
          in
          bnd (new_Transaction outTxId fromUserId amt ''TRY'' bill_split tx_ok None
                 [(''to_user'', toUserId), (''related_tx'', inTxId), (''type'', ''split_payment'')])
            (\<lambda>outTransaction.
          bnd (new_Transaction inTxId toUserId amt ''TRY'' transfer_in tx_ok None
                 [(''from_user'', fromUserId), (''related_tx'', outTxId),
                  (''type'', ''split_received'')])
            (\<lambda>inTransaction.
          bnd (Database_transaction
                 [UPDATE_wallets_minus amt fromUserId,
                  UPDATE_wallets_plus amt toUserId,
                  INSERT_transactions outTransaction,
                  INSERT_transactions inTransaction])
            (\<lambda>_.
          ret (Success \<lparr>outTransactionId = outTxId, inTransactionId = inTxId,
                        td_amount = amt\<rparr>)))))))
       (\<lambda>error. throw error)"

record SettleData =
  st_splitId :: nat
  st_amount :: rat
  st_payerUserId :: string
  st_debtorUserId :: string
  transferTransactionId :: string

definition settleBillSplit :: "nat \<Rightarrow> string \<Rightarrow> SettleData result io" where
  "settleBillSplit sid payingUserId =
     try_catch
       (bnd (BillSplitRepository_findById sid) (\<lambda>split.
          case split of
            None \<Rightarrow> ret (Failure SplitNotFound)
          | Some sp \<Rightarrow>
              if debtorUserId sp \<noteq> payingUserId then ret (Failure OnlyDebtor)
              else if isSettled sp then ret (Failure AlreadySettled)
              else
                bnd (WalletRepository_hasSufficientFunds payingUserId (shareAmount sp))
                  (\<lambda>hasFunds.
                  if \<not> hasFunds then ret (Failure InsufficientFunds)
                  else
                    bnd (BillSplitService_transferMoney (debtorUserId sp) (payerUserId sp)
                           (shareAmount sp))
                      (\<lambda>transferResult.
                      case transferResult of
                        Failure m \<Rightarrow> ret (Failure m)
                      | Success td \<Rightarrow>
                          bnd (BillSplitRepository_settle sid) (\<lambda>_.
                          ret (Success \<lparr>st_splitId = sid, st_amount = shareAmount sp,
                                        st_payerUserId = payerUserId sp,
                                        st_debtorUserId = debtorUserId sp,
                                        transferTransactionId = outTransactionId td\<rparr>))))))
       (\<lambda>error. ret (Failure SettleError))"

definition cancelBillSplit :: "nat \<Rightarrow> string \<Rightarrow> unit result io" where
  "cancelBillSplit sid uid =
     try_catch
       (bnd (BillSplitRepository_findById sid) (\<lambda>split.
          case split of
            None \<Rightarrow> ret (Failure SplitNotFound)
          | Some sp \<Rightarrow>
              if payerUserId sp \<noteq> uid then ret (Failure OnlyPayer)
              else if isSettled sp then ret (Failure SettledNotCancellable)
              else bnd (BillSplitRepository_cancel sid) (\<lambda>_. ret (Success ()))))
       (\<lambda>error. ret (Failure CancelError))"

section \<open>CashbackService\<close>

text \<open>
  services/CashbackService.js.  \<open>now\<close> is the value of \<open>datetime('now')\<close>, as a day number, that the
  rule query compares with \<open>starts_at\<close> and \<open>ends_at\<close>.  The \<open>message\<close> and \<open>description\<close> strings of
  the results and of the cashback metadata are left out; a summary without \<open>appliedRules\<close> is the
  summary with the empty list.  The cashback Transaction is inserted by
  \<open>transactionRepository.create\<close> and the wallet is credited by a separate \<open>db.run\<close>: two
  statements, each of which storage may reject.
\<close>

definition calculateCashbackAmount :: "CashbackRule \<Rightarrow> rat \<Rightarrow> rat" where
  "calculateCashbackAmount rule amt =
     (let cbAmount =
        (case rule_type rule of
           percent \<Rightarrow>
             (let c = amt * rate rule in
              case cap rule of
                None \<Rightarrow> c
              | Some cp \<Rightarrow> if cp \<noteq> 0 \<and> c > cp then cp else c)
         | flat \<Rightarrow> flat_amount rule)
      in round2 cbAmount)"

definition SELECT_cashback_rules :: "string \<Rightarrow> nat \<Rightarrow> db \<Rightarrow> CashbackRule list" where
  "SELECT_cashback_rules cat now d =
     filter (\<lambda>r. active r
               \<and> (category r = cat \<or> category r = ''any'')
               \<and> (case starts_at r of None \<Rightarrow> True | Some st \<Rightarrow> st \<le> now)
               \<and> (case ends_at r of None \<Rightarrow> True | Some en \<Rightarrow> en \<ge> now))
       (cashback_rules d)"

definition COUNT_cashback :: "string \<Rightarrow> string \<Rightarrow> db \<Rightarrow> nat" where
  "COUNT_cashback uid rid d =
     length (filter (\<lambda>t. userId t = uid \<and> txType t = cashback
                          \<and> map_of (meta t) ''rule_id'' = Some rid)
               (transactions d))"

fun filter_first_time :: "string \<Rightarrow> CashbackRule list \<Rightarrow> CashbackRule list \<Rightarrow> CashbackRule list io"
  where
  "filter_first_time uid [] filteredRules = ret filteredRules"
| "filter_first_time uid (rule # rules) filteredRules =
     (if first_time_only rule then
        bnd (Database_get (\<lambda>d. Some (COUNT_cashback uid (rule_id rule) d))) (\<lambda>hasPrevious.
          case hasPrevious of
            None \<Rightarrow> throw TypeError
          | Some n \<Rightarrow>
              if n = 0 then filter_first_time uid rules (filteredRules @ [rule])
              else filter_first_time uid rules filteredRules)
      else filter_first_time uid rules (filteredRules @ [rule]))"

definition getApplicableCashbackRules :: "nat \<Rightarrow> string \<Rightarrow> string \<Rightarrow> CashbackRule list io" where
  "getApplicableCashbackRules now uid cat =
     try_catch
       (bnd (Database_query (SELECT_cashback_rules cat now)) (\<lambda>rules.
          filter_first_time uid rules []))
       (\<lambda>error. ret [])"

record CashbackResult =
  cashbackAmount :: rat
  applied :: bool
  appliedRules :: "(string \<times> rat) list"

fun apply_rules ::
  "string \<Rightarrow> string \<Rightarrow> rat \<Rightarrow> string \<Rightarrow> CashbackRule list \<Rightarrow> rat \<times> (string \<times> rat) list
     \<Rightarrow> (rat \<times> (string \<times> rat) list) io" where
  "apply_rules uid mid amt paymentTxId [] acc = ret acc"
| "apply_rules uid mid amt paymentTxId (rule # rules) (totalCashback, applRules) =
     (let cbAmount = calculateCashbackAmount rule amt in
      if cbAmount > 0 then
        bnd uuidv4 (\<lambda>u1.
        bnd (new_Transaction (''TX_CB_'' @ take 8 u1) uid cbAmount ''TRY'' cashback tx_ok
               (Some mid) [(''rule_id'', rule_id rule), (''original_tx_id'', paymentTxId)])
          (\<lambda>cashbackTx.
        bnd (TransactionRepository_create cashbackTx) (\<lambda>_.
        bnd (Database_run (UPDATE_wallets_plus cbAmount uid)) (\<lambda>_.
        apply_rules uid mid amt paymentTxId rules
          (totalCashback + cbAmount, applRules @ [(rule_id rule, cbAmount)])))))
      else apply_rules uid mid amt paymentTxId rules (totalCashback, applRules))"

definition SELECT_merchant :: "string \<Rightarrow> db \<Rightarrow> Merchant option" where
  "SELECT_merchant m d = find (\<lambda>r. merchant_id r = m) (merchants d)"

definition calculateAndApplyCashback ::
  "nat \<Rightarrow> string \<Rightarrow> string \<Rightarrow> rat \<Rightarrow> string \<Rightarrow> CashbackResult io" where
  "calculateAndApplyCashback now uid mid amt paymentTxId =
     try_catch
       (bnd (Database_get (SELECT_merchant mid)) (\<lambda>merchant.
          case merchant of
            None \<Rightarrow> ret \<lparr>cashbackAmount = 0, applied = False, appliedRules = []\<rparr>
          | Some m \<Rightarrow>
              bnd (getApplicableCashbackRules now uid (m_category m)) (\<lambda>rules.
                if length rules = 0
                then ret \<lparr>cashbackAmount = 0, applied = False, appliedRules = []\<rparr>
                else
                  bnd (apply_rules uid mid amt paymentTxId rules (0, [])) (\<lambda>(total, rs).
                    ret \<lparr>cashbackAmount = total, applied = (total > 0), appliedRules = rs\<rparr>))))
       (\<lambda>error. ret \<lparr>cashbackAmount = 0, applied = False, appliedRules = []\<rparr>)"

text \<open>The balance a user's wallet row holds.\<close>

definition balance_of :: "db \<Rightarrow> string \<Rightarrow> rat option" where
  "balance_of d u = map_option balance (SELECT_wallet u d)"

definition wp :: "'a io \<Rightarrow> sys \<Rightarrow> ((exn + 'a) \<Rightarrow> sys \<Rightarrow> bool) \<Rightarrow> bool" where
  "wp m s Q = (case m s of (r, s') \<Rightarrow> Q r s')"

fun exec_all :: "statement list \<Rightarrow> db \<Rightarrow> exn + db" where
  "exec_all [] d = Inr d"
| "exec_all (st # sts) d = (case exec st d of Inl e \<Rightarrow> Inl e | Inr d' \<Rightarrow> exec_all sts d')"

definition transfer_store :: "string \<Rightarrow> string \<Rightarrow> rat \<Rightarrow> Transaction \<Rightarrow> Transaction \<Rightarrow> db \<Rightarrow> db" where
  "transfer_store F T a otx itx d = 
    d\<lparr>wallets := map (\<lambda>w. if w_userId w = T then w\<lparr>balance := balance w + a\<rparr> else w)
          (map (\<lambda>w. if w_userId w = F then w\<lparr>balance := balance w - a\<rparr> else w) (wallets d)),
       transactions := transactions d @ [otx, itx]\<rparr>"

definition pay_store :: "string \<Rightarrow> rat \<Rightarrow> Transaction \<Rightarrow> db \<Rightarrow> db" where
  "pay_store u a tx d =
    d\<lparr>wallets := map (\<lambda>w. if w_userId w = u then w\<lparr>balance := balance w - a\<rparr> else w) (wallets d),
       transactions := transactions d @ [tx]\<rparr>"

definition topup_store :: "string \<Rightarrow> rat \<Rightarrow> Transaction \<Rightarrow> db \<Rightarrow> db" where
  "topup_store u a tx d =
    d\<lparr>wallets := map (\<lambda>w. if w_userId w = u then w\<lparr>balance := balance w + a\<rparr> else w) (wallets d),
       transactions := transactions d @ [tx]\<rparr>"

definition status_store :: "split_status \<Rightarrow> nat \<Rightarrow> db \<Rightarrow> db" where
  "status_store st i d =
     d\<lparr>bill_splits := map (\<lambda>b. if splitId b = Some i then b\<lparr>bs_status := st\<rparr> else b) (bill_splits d)\<rparr>"

definition split_out_tx :: "BillSplit \<Rightarrow> string \<Rightarrow> string \<Rightarrow> Transaction" where
  "split_out_tx sp oid iid =
     \<lparr>txId = oid, userId = debtorUserId sp, merchantId = None, amount = shareAmount sp,
      currency = ''TRY'', txType = bill_split, status = tx_ok,
      meta = [(''to_user'', payerUserId sp), (''related_tx'', iid), (''type'', ''split_payment'')]\<rparr>"

definition split_in_tx :: "BillSplit \<Rightarrow> string \<Rightarrow> string \<Rightarrow> Transaction" where
  "split_in_tx sp oid iid =
     \<lparr>txId = iid, userId = payerUserId sp, merchantId = None, amount = shareAmount sp,
      currency = ''TRY'', txType = transfer_in, status = tx_ok,
      meta = [(''from_user'', debtorUserId sp), (''related_tx'', oid), (''type'', ''split_received'')]\<rparr>"

definition moved :: "BillSplit \<Rightarrow> db \<Rightarrow> db \<Rightarrow> bool" where
  "moved sp d d' =
     (\<exists>oid iid. d' = transfer_store (debtorUserId sp) (payerUserId sp) (shareAmount sp)
                        (split_out_tx sp oid iid) (split_in_tx sp oid iid) d)"

fun assign_ids :: "nat \<Rightarrow> BillSplit list \<Rightarrow> BillSplit list" where
  "assign_ids n [] = []"
| "assign_ids n (b # bs) = b\<lparr>splitId := Some (Suc n)\<rparr> # assign_ids (Suc n) bs"

definition splits_store :: "BillSplit list \<Rightarrow> db \<Rightarrow> db" where
  "splits_store bs d =
     d\<lparr>bill_splits := bill_splits d @ assign_ids (split_seq d) bs,
       split_seq := split_seq d + length bs\<rparr>"

definition equal_split :: "string \<Rightarrow> string \<Rightarrow> Transaction \<Rightarrow> nat \<Rightarrow> string \<Rightarrow> BillSplit" where
  "equal_split payer txid otx n dbt =
     \<lparr>splitId = None, bs_txId = txid, payerUserId = payer, debtorUserId = dbt,
      totalAmount = amount otx, shareAmount = round2 (amount otx / of_nat (n + 1)),
      weight = 1, bs_status = pending\<rparr>"

definition weighted_split :: "string \<Rightarrow> string \<Rightarrow> Transaction \<Rightarrow> rat \<Rightarrow> string \<times> rat \<Rightarrow> BillSplit" where
  "weighted_split payer txid otx W item =
     \<lparr>splitId = None, bs_txId = txid, payerUserId = payer, debtorUserId = fst item,
      totalAmount = amount otx, shareAmount = round2 (amount otx * snd item / W),
      weight = snd item, bs_status = pending\<rparr>"

definition wallets_ok :: "db \<Rightarrow> bool" where
  "wallets_ok d = (distinct (map w_userId (wallets d)) \<and> (\<forall>w \<in> set (wallets d). 0 \<le> balance w))"

definition applicable :: "nat \<Rightarrow> string \<Rightarrow> string \<Rightarrow> db \<Rightarrow> CashbackRule list" where
  "applicable now u cat d =
     filter (\<lambda>r. first_time_only r \<longrightarrow> COUNT_cashback u (rule_id r) d = 0)
       (SELECT_cashback_rules cat now d)"

definition cb_inv :: "string \<Rightarrow> CashbackRule list \<Rightarrow> db \<Rightarrow> db \<Rightarrow> bool" where
  "cb_inv u rules d d' =
     ((wallets_ok d \<longrightarrow> wallets_ok d') \<and> cashback_rules d' = cashback_rules d \<and>
      (\<forall>v rid. v \<noteq> u \<longrightarrow> COUNT_cashback v rid d' = COUNT_cashback v rid d) \<and>
      (\<forall>rid. COUNT_cashback u rid d \<le> COUNT_cashback u rid d' \<and>
             COUNT_cashback u rid d' \<le> COUNT_cashback u rid d + count_list (map rule_id rules) rid))"

definition cb_post ::
  "string \<Rightarrow> CashbackRule list \<Rightarrow> (string \<times> rat) list \<Rightarrow> db
     \<Rightarrow> exn + rat \<times> (string \<times> rat) list \<Rightarrow> db \<Rightarrow> bool" where
  "cb_post u rules ap d r d' =
     (cb_inv u rules d d' \<and>
      (case r of
         Inl e \<Rightarrow> True
       | Inr (tot', ap') \<Rightarrow>
           (\<exists>new. ap' = ap @ new \<and> fst ` set new \<subseteq> rule_id ` set rules \<and>
              (\<forall>rid. COUNT_cashback u rid d' = COUNT_cashback u rid d + count_list (map fst new) rid))))"

definition cb_rules :: "nat \<Rightarrow> string \<Rightarrow> string \<Rightarrow> db \<Rightarrow> CashbackRule list" where
  "cb_rules now u m d =
     (case SELECT_merchant m d of None \<Rightarrow> [] | Some mr \<Rightarrow> applicable now u (m_category mr) d)"

definition cashback_post :: "nat \<Rightarrow> string \<Rightarrow> string \<Rightarrow> db \<Rightarrow> CashbackResult \<Rightarrow> db \<Rightarrow> bool" where
  "cashback_post now u m d res d' =
     (cb_inv u (cb_rules now u m d) d d' \<and>
      fst ` set (appliedRules res) \<subseteq> rule_id ` set (cb_rules now u m d) \<and>
      (appliedRules res \<noteq> [] \<longrightarrow>
         (\<forall>rid. COUNT_cashback u rid d' =
                  COUNT_cashback u rid d + count_list (map fst (appliedRules res)) rid)))"

datatype operation =
    Transfer string string rat
  | Pay string string rat
  | TopUp string rat
  | QRPay int string qr_data
  | EqualSplit string string "string list"
  | WeightedSplit string string "(string \<times> rat) list"
  | Settle nat string
  | Cancel nat string
  | Cashback nat string string rat string

fun step :: "operation \<Rightarrow> sys \<Rightarrow> sys" where
  "step (Transfer f t a) s = snd (PaymentService_transferMoney f t a s)"
| "step (Pay u m a) s = snd (processPayment u m a s)"
| "step (TopUp u a) s = snd (topUpWallet u a s)"
| "step (QRPay now u q) s = snd (processQRPayment now u q s)"
| "step (EqualSplit p t ds) s = snd (createEqualSplit p t ds s)"
| "step (WeightedSplit p t dw) s = snd (createWeightedSplit p t dw s)"
| "step (Settle i u) s = snd (settleBillSplit i u s)"
| "step (Cancel i u) s = snd (cancelBillSplit i u s)"
| "step (Cashback now u m a p) s = snd (calculateAndApplyCashback now u m a p s)"

fun run :: "operation list \<Rightarrow> sys \<Rightarrow> sys" where
  "run [] s = s"
| "run (x # xs) s = run xs (step x s)"

definition demo_tx1 :: Transaction where
  "demo_tx1 = \<lparr>txId = ''TX_PAY_1'', userId = ''U1'', merchantId = Some ''M1'', amount = 30,
                currency = ''TRY'', txType = payment, status = tx_ok,
                meta = [(''payment_method'', ''wallet'')]\<rparr>"

definition demo_tx2 :: Transaction where
  "demo_tx2 = \<lparr>txId = ''TX_PAY_2'', userId = ''U1'', merchantId = Some ''M1'', amount = 100,
                currency = ''TRY'', txType = payment, status = tx_ok,
                meta = [(''payment_method'', ''wallet'')]\<rparr>"

definition demo_split1 :: BillSplit where
  "demo_split1 = \<lparr>splitId = Some 1, bs_txId = ''TX_PAY_1'', payerUserId = ''U1'',
                   debtorUserId = ''U2'', totalAmount = 30, shareAmount = 10, weight = 1,
                   bs_status = cancelled\<rparr>"

definition demo_split2 :: BillSplit where
  "demo_split2 = \<lparr>splitId = Some 2, bs_txId = ''TX_PAY_2'', payerUserId = ''U1'',
                   debtorUserId = ''U3'', totalAmount = 100, shareAmount = 45, weight = 1,
                   bs_status = pending\<rparr>"

definition demo_cb1 :: CashbackRule where
  "demo_cb1 = \<lparr>rule_id = ''CB1'', rule_type = percent, category = ''cafe'', rate = 5 / 100,
                flat_amount = 0, cap = Some 20, first_time_only = False, starts_at = None,
                ends_at = None, active = True\<rparr>"

definition demo_cb2 :: CashbackRule where
  "demo_cb2 = \<lparr>rule_id = ''CB2'', rule_type = flat, category = ''any'', rate = 0,
                flat_amount = 20, cap = Some 20, first_time_only = True, starts_at = None,
                ends_at = None, active = True\<rparr>"

definition demo_db :: db where
  "demo_db =
     \<lparr>users = [\<lparr>u_userId = ''U1'', u_name = ''Ayse'', u_phone = ''+905551111111''\<rparr>,
               \<lparr>u_userId = ''U2'', u_name = ''Ali'', u_phone = ''+905552222222''\<rparr>,
               \<lparr>u_userId = ''U3'', u_name = ''Deniz'', u_phone = ''+905553333333''\<rparr>],
      merchants = [\<lparr>merchant_id = ''M1'', m_name = ''Kahve Dunyasi'', m_category = ''cafe''\<rparr>],
      wallets = [\<lparr>w_userId = ''U1'', balance = 250, w_currency = ''TRY''\<rparr>,
                 \<lparr>w_userId = ''U2'', balance = 90, w_currency = ''TRY''\<rparr>,
                 \<lparr>w_userId = ''U3'', balance = 30, w_currency = ''TRY''\<rparr>],
      transactions = [demo_tx1, demo_tx2],
      bill_splits = [demo_split1, demo_split2],
      cashback_rules = [demo_cb1, demo_cb2],
      split_seq = 2\<rparr>"

definition demo :: sys where
  "demo = \<lparr>store = demo_db, faults = [],
           uuids = [''1b9d6bcd-bbfd-4b2d-9b5d-ab8dfbbd4bed'', ''9c858901-8a57-4791-81fe-4c455b099bc9'',
                    ''6ec0bd7f-11c0-43da-975e-2a8ad9ebae0b'', ''3d6f0a4e-7c1b-4e0c-9a57-5b8a0f2c1d3e'',
                    ''a7c5e9b1-2f4d-4c6a-8e0b-1d3f5a7c9e2b'', ''f47ac10b-58cc-4372-a567-0e02b2c3d479'',
                    ''0b6a1c2d-3e4f-4a5b-8c7d-9e0f1a2b3c4d'', ''c2d7e8f9-0a1b-4c3d-9e5f-6a7b8c9d0e1f'',
                    ''e3b0c442-98fc-4c14-9afb-f4c8996fb924'', ''5f4dcc3b-5aa7-45d6-9d83-27deb882cf99'']\<rparr>"


definition two_decimals :: "rat \<Rightarrow> bool" where
  "two_decimals x = (of_int \<lfloor>x * 100\<rfloor> = x * 100)"

definition demo_qr :: qr_info where
  "demo_qr = \<lparr>qr_id = ''QR-M1-001'', qr_merchant_id = ''M1'', qr_amount = Amount 40, ts = NoTs\<rparr>"

definition demo_ops :: "operation list" where
  "demo_ops =
     [Transfer ''U1'' ''U2'' 50, Pay ''U2'' ''M1'' 500, TopUp ''U3'' 5,
      QRPay 0 ''U2'' (Info demo_qr), Settle 1 ''U2'', Cashback 0 ''U1'' ''M1'' 20 ''TX_PAY_1'',
      EqualSplit ''U1'' ''TX_PAY_1'' [''U2'', ''U3''], Cancel 2 ''U1'', Settle 3 ''U2'']"

lemma wpD: "wp m s Q \<Longrightarrow> m s = (r, s') \<Longrightarrow> Q r s'"
  by (simp add: wp_def)

lemma wp_ret [simp]: "wp (ret x) s Q = Q (Inr x) s"
  by (simp add: wp_def ret_def)

lemma wp_throw [simp]: "wp (throw e) s Q = Q (Inl e) s"
  by (simp add: wp_def throw_def)

lemma wp_lift [simp]: "wp (lift r) s Q = Q r s"
  by (simp add: wp_def lift_def)

lemma wp_bnd [simp]:
  "wp (bnd m f) s Q = wp m s (\<lambda>r s'. case r of Inl e \<Rightarrow> Q (Inl e) s' | Inr x \<Rightarrow> wp (f x) s' Q)"
  by (simp add: wp_def bnd_def split: prod.splits sum.splits)

lemma wp_try_catch [simp]:
  "wp (try_catch m h) s Q = wp m s (\<lambda>r s'. case r of Inl e \<Rightarrow> wp (h e) s' Q | Inr x \<Rightarrow> Q (Inr x) s')"
  by (simp add: wp_def try_catch_def split: prod.splits sum.splits)

lemma wp_mono: "wp m s Q \<Longrightarrow> (\<And>r s'. Q r s' \<Longrightarrow> Q' r s') \<Longrightarrow> wp m s Q'"
  by (auto simp: wp_def split: prod.splits)

lemma wp_fault:
  assumes "\<And>s'. store s' = store s \<Longrightarrow> Q (Inl SqliteError) s'"
    and "\<And>s'. store s' = store s \<Longrightarrow> Q (Inr ()) s'"
  shows "wp fault s Q"
  using assms by (simp add: wp_def fault_def split: list.splits)

lemma wp_uuidv4:
  assumes "\<And>u s'. store s' = store s \<Longrightarrow> Q (Inr u) s'"
  shows "wp uuidv4 s Q"
  using assms by (simp add: wp_def uuidv4_def split: list.splits)

lemma wp_Database_get:
  assumes "\<And>s'. store s' = store s \<Longrightarrow> Q (Inl SqliteError) s'"
    and "\<And>s'. store s' = store s \<Longrightarrow> Q (Inr (q (store s))) s'"
  shows "wp (Database_get q) s Q"
  unfolding Database_get_def
  by (simp, rule wp_fault) (simp_all add: assms wp_def)

lemma wp_Database_query:
  assumes "\<And>s'. store s' = store s \<Longrightarrow> Q (Inl SqliteError) s'"
    and "\<And>s'. store s' = store s \<Longrightarrow> Q (Inr (q (store s))) s'"
  shows "wp (Database_query q) s Q"
  unfolding Database_query_def
  by (simp, rule wp_fault) (simp_all add: assms wp_def)

lemma wp_Database_run:
  assumes "\<And>e s'. store s' = store s \<Longrightarrow> Q (Inl e) s'" 
    and "\<And>s'. exec st (store s) = Inr (store s') \<Longrightarrow> Q (Inr ()) s'"
  shows "wp (Database_run st) s Q"
  unfolding Database_run_def
  by (simp, rule wp_fault) (simp_all add: assms wp_def split: sum.splits)

lemma run_all_Inr: "run_all sts d fs = (Inr d', fs') \<Longrightarrow> exec_all sts d = Inr d'"
  by (induction sts d fs rule: run_all.induct) (auto split: sum.splits if_splits)

lemma wp_Database_transaction:
  assumes "\<And>e s'. store s' = store s \<Longrightarrow> Q (Inl e) s'" 
    and "\<And>s'. exec_all sts (store s) = Inr (store s') \<Longrightarrow> Q (Inr ()) s'"
  shows "wp (Database_transaction sts) s Q"
  using assms
  by (auto simp: wp_def Database_transaction_def split: prod.splits sum.splits dest: run_all_Inr)

lemma wp_findByUserId:
  assumes "\<And>e s'. store s' = store s \<Longrightarrow> Q (Inl e) s'"
    and "\<And>s'. store s' = store s \<Longrightarrow> SELECT_wallet u (store s) = None \<Longrightarrow> Q (Inr None) s'"
    and "\<And>s' w. store s' = store s \<Longrightarrow> SELECT_wallet u (store s) = Some w \<Longrightarrow> 0 \<le> balance w
           \<Longrightarrow> Q (Inr (Some w)) s'"
  shows "wp (WalletRepository_findByUserId u) s Q"
  unfolding WalletRepository_findByUserId_def
  by (simp, rule wp_Database_get)
     (auto simp: assms Wallet_validate_def split: option.splits)

lemma wp_new_Transaction:
  assumes "Q (Inl ValidationError) s"
    and "Q (Inr \<lparr>txId = i, userId = u, merchantId = m, amount = a, currency = c, txType = ty,
        status = st, meta = mt\<rparr>) s"
  shows "wp (new_Transaction i u a c ty st m mt) s Q"
  using assms by (simp add: new_Transaction_def Transaction_validate_def)

lemma exec_all_transfer:
  "exec_all [UPDATE_wallets_minus a F, UPDATE_wallets_plus a T, INSERT_transactions otx, INSERT_transactions itx] d = Inr d'
   \<Longrightarrow> d' = transfer_store F T a otx itx d"
  by (auto simp: transfer_store_def split: if_splits sum.splits simp del: map_map)

lemma transferMoney_wp:
  "wp (PaymentService_transferMoney F T a) s (\<lambda>r s'. 
     case r of Inl e \<Rightarrow> False 
     | Inr (Failure m) \<Rightarrow> store s' = store s
     | Inr (Success d) \<Rightarrow> F \<noteq> T \<and> 0 < a \<and>
          (\<exists>fw tw. SELECT_wallet F (store s) = Some fw \<and> SELECT_wallet T (store s) = Some tw \<and> a \<le> balance fw) \<and>
          store s' = transfer_store F T a 
              \<lparr>txId = outTransactionId d, userId = F, merchantId = None, amount = a, currency = ''TRY'',
                txType = transfer_out, status = tx_ok, 
                meta = [(''to_user'', T), (''related_tx'', inTransactionId d)]\<rparr>
              \<lparr>txId = inTransactionId d, userId = T, merchantId = None, amount = a, currency = ''TRY'',
                txType = transfer_in, status = tx_ok, 
                meta = [(''from_user'', F), (''related_tx'', outTransactionId d)]\<rparr> (store s))"
  unfolding PaymentService_transferMoney_def
  by (auto simp: Let_def hasSufficientFunds_def  
      intro!: wp_findByUserId wp_uuidv4 wp_new_Transaction wp_Database_transaction
      dest!: exec_all_transfer)

lemma exec_all_pay:
  "exec_all [UPDATE_wallets_minus a u, INSERT_transactions tx] d = Inr d' \<Longrightarrow> d' = pay_store u a tx d"
  by (auto simp: pay_store_def split: if_splits sum.splits)

lemma exec_all_topup:
  "exec_all [UPDATE_wallets_plus a u, INSERT_transactions tx] d = Inr d' \<Longrightarrow> d' = topup_store u a tx d"
  by (auto simp: topup_store_def split: if_splits sum.splits)

lemma processPayment_wp:
  "wp (processPayment u m a) s (\<lambda>r s'.
     case r of Inl e \<Rightarrow> False
     | Inr (Failure msg) \<Rightarrow> store s' = store s
     | Inr (Success d) \<Rightarrow> 0 < a \<and>
          (\<exists>w. SELECT_wallet u (store s) = Some w \<and> a \<le> balance w \<and> newBalance d = balance w - a) \<and>
          store s' = pay_store u a
              \<lparr>txId = transactionId d, userId = u, merchantId = Some m, amount = a, currency = ''TRY'',
                txType = payment, status = tx_ok, meta = [(''payment_method'', ''wallet'')]\<rparr> (store s))"
  unfolding processPayment_def
  by (auto simp: Let_def hasSufficientFunds_def
      intro!: wp_findByUserId wp_uuidv4 wp_new_Transaction wp_Database_transaction
      dest!: exec_all_pay)

lemma topUpWallet_wp:
  "wp (topUpWallet u a) s (\<lambda>r s'.
     case r of Inl e \<Rightarrow> False
     | Inr (Failure msg) \<Rightarrow> store s' = store s
     | Inr (Success d) \<Rightarrow> 0 < a \<and>
          (\<exists>w. SELECT_wallet u (store s) = Some w \<and> newBalance d = balance w + a) \<and>
          store s' = topup_store u a
              \<lparr>txId = transactionId d, userId = u, merchantId = None, amount = a, currency = ''TRY'',
                txType = topup, status = tx_ok, meta = [(''method'', ''bank_transfer'')]\<rparr> (store s))"
  unfolding topUpWallet_def
  by (auto simp: Let_def
      intro!: wp_findByUserId wp_uuidv4 wp_new_Transaction wp_Database_transaction
      dest!: exec_all_topup)

lemma processQRPayment_wp:
  "wp (processQRPayment now u q) s (\<lambda>r s'.
     case r of Inl e \<Rightarrow> False
     | Inr (Failure msg) \<Rightarrow> store s' = store s
     | Inr (Success (d, qid)) \<Rightarrow> 
         (\<exists>qi a. q = Info qi \<and> qr_amount qi = Amount a \<and> 0 < a \<and>
          (\<exists>w. SELECT_wallet u (store s) = Some w \<and> a \<le> balance w) \<and>
          store s' = pay_store u a
              \<lparr>txId = transactionId d, userId = u, merchantId = Some (qr_merchant_id qi), amount = a,
                currency = ''TRY'', txType = payment, status = tx_ok,
                meta = [(''payment_method'', ''wallet'')]\<rparr> (store s)))"
  unfolding processQRPayment_def
  by (auto split: qr_data.splits qr_amount.splits 
       intro!: wp_mono[OF processPayment_wp] split: sum.splits result.splits)

lemma BillSplitService_transferMoney_wp:
  "wp (BillSplitService_transferMoney F T a) s (\<lambda>r s'.
     case r of Inl e \<Rightarrow> store s' = store s
     | Inr (Failure msg) \<Rightarrow> False
     | Inr (Success d) \<Rightarrow> 0 < a \<and>
          store s' = transfer_store F T a
              \<lparr>txId = outTransactionId d, userId = F, merchantId = None, amount = a, currency = ''TRY'',
                txType = bill_split, status = tx_ok,
                meta = [(''to_user'', T), (''related_tx'', inTransactionId d), (''type'', ''split_payment'')]\<rparr>
              \<lparr>txId = inTransactionId d, userId = T, merchantId = None, amount = a, currency = ''TRY'',
                txType = transfer_in, status = tx_ok,
                meta = [(''from_user'', F), (''related_tx'', outTransactionId d), (''type'', ''split_received'')]\<rparr> (store s))"
  unfolding BillSplitService_transferMoney_def
  by (auto simp: Let_def new_Transaction_def Transaction_validate_def
      intro!: wp_uuidv4 wp_Database_transaction
      dest!: exec_all_transfer)

lemma wp_BillSplitRepository_findById:
  assumes "\<And>e s'. store s' = store s \<Longrightarrow> Q (Inl e) s'"
    and "\<And>s'. store s' = store s \<Longrightarrow> SELECT_bill_split i (store s) = None \<Longrightarrow> Q (Inr None) s'"
    and "\<And>s' b. store s' = store s \<Longrightarrow> SELECT_bill_split i (store s) = Some b \<Longrightarrow>
            payerUserId b \<noteq> debtorUserId b \<Longrightarrow> 0 < shareAmount b \<Longrightarrow> Q (Inr (Some b)) s'"
  shows "wp (BillSplitRepository_findById i) s Q"
  unfolding BillSplitRepository_findById_def
  by (simp, rule wp_Database_get)
     (auto simp: assms BillSplit_validate_def split: option.splits)

lemma wp_hasSufficientFunds:
  assumes "\<And>e s'. store s' = store s \<Longrightarrow> Q (Inl e) s'"
    and "\<And>s'. store s' = store s \<Longrightarrow> Q (Inr False) s'"
    and "\<And>s' w. store s' = store s \<Longrightarrow> SELECT_wallet u (store s) = Some w \<Longrightarrow> a \<le> balance w
           \<Longrightarrow> Q (Inr True) s'"
  shows "wp (WalletRepository_hasSufficientFunds u a) s Q"
proof -
  have k: "Q (Inr (a \<le> balance w)) s'"
    if "store s' = store s" "SELECT_wallet u (store s) = Some w" for s' w
    using that assms(2,3) by (cases "a \<le> balance w") auto
  show ?thesis
    unfolding WalletRepository_hasSufficientFunds_def
    by (simp, rule wp_findByUserId) (simp_all add: assms(1,2) k hasSufficientFunds_def)
qed

lemma wp_status_update:
  assumes "\<And>e s'. store s' = store s \<Longrightarrow> Q (Inl e) s'"
    and "\<And>s'. store s' = status_store st i (store s) \<Longrightarrow> Q (Inr ()) s'"
  shows "wp (Database_run (UPDATE_bill_splits_status st i)) s Q"
  by (rule wp_Database_run) (auto simp: assms status_store_def)

lemma movedI:
  "d' = transfer_store (debtorUserId sp) (payerUserId sp) (shareAmount sp)
     \<lparr>txId = oid, userId = debtorUserId sp, merchantId = None, amount = shareAmount sp,
      currency = ''TRY'', txType = bill_split, status = tx_ok,
      meta = [(''to_user'', payerUserId sp), (''related_tx'', iid), (''type'', ''split_payment'')]\<rparr>
     \<lparr>txId = iid, userId = payerUserId sp, merchantId = None, amount = shareAmount sp,
      currency = ''TRY'', txType = transfer_in, status = tx_ok,
      meta = [(''from_user'', debtorUserId sp), (''related_tx'', oid), (''type'', ''split_received'')]\<rparr> d
   \<Longrightarrow> moved sp d d'"
  unfolding moved_def split_out_tx_def split_in_tx_def by blast

lemma settleBillSplit_wp:
  "wp (settleBillSplit sid u) s (\<lambda>r s'.
     case r of Inl e \<Rightarrow> False
     | Inr res \<Rightarrow>
        (\<not> success res \<and> store s' = store s) \<or>
        (\<exists>sp fw. SELECT_bill_split sid (store s) = Some sp \<and> debtorUserId sp = u \<and>
            bs_status sp \<noteq> settled \<and> payerUserId sp \<noteq> u \<and> 0 < shareAmount sp \<and>
            SELECT_wallet u (store s) = Some fw \<and> shareAmount sp \<le> balance fw \<and>
            (\<exists>d1. moved sp (store s) d1 \<and>
               ((\<not> success res \<and> store s' = d1) \<or>
                (success res \<and> store s' = status_store settled sid d1)))))"
  unfolding settleBillSplit_def BillSplitRepository_settle_def
  apply (simp, rule wp_BillSplitRepository_findById)
    apply (simp_all add: success_def isSettled_def)
  apply (intro conjI impI)
  apply (simp_all add: success_def)
  apply (rule wp_hasSufficientFunds)
    apply (simp_all add: success_def)
  apply (rule wp_mono[OF BillSplitService_transferMoney_wp])
  apply (clarsimp simp: success_def split: sum.splits result.splits)
  apply (rule wp_status_update)
   apply (simp_all add: success_def)
   apply (auto intro!: movedI)
  done

lemma cancelBillSplit_wp:
  "wp (cancelBillSplit sid u) s (\<lambda>r s'.
     case r of Inl e \<Rightarrow> False
     | Inr (Failure m) \<Rightarrow> store s' = store s
     | Inr (Success x) \<Rightarrow> store s' = status_store cancelled sid (store s))"
  unfolding cancelBillSplit_def BillSplitRepository_cancel_def
  by (auto intro!: wp_BillSplitRepository_findById wp_status_update)

lemma exec_all_splits:
  "exec_all (map INSERT_bill_splits bs) d = Inr d' \<Longrightarrow>
     d' = splits_store bs d \<and> debtorUserId ` set bs \<subseteq> u_userId ` set (users d)"
proof (induction bs arbitrary: d d')
  case Nil
  then show ?case by (simp add: splits_store_def)
next
  case (Cons b bs)
  from Cons.prems obtain d1 where d1: "exec (INSERT_bill_splits b) d = Inr d1"
    and rest: "exec_all (map INSERT_bill_splits bs) d1 = Inr d'"
    by (auto split: sum.splits)
  from d1 have b: "debtorUserId b \<in> u_userId ` set (users d)"
    and d1_eq: "d1 = d\<lparr>bill_splits := bill_splits d @ [b\<lparr>splitId := Some (Suc (split_seq d))\<rparr>],
                       split_seq := Suc (split_seq d)\<rparr>"
    by (auto split: if_splits)
  from Cons.IH[OF rest] have "d' = splits_store bs d1"
    and "debtorUserId ` set bs \<subseteq> u_userId ` set (users d1)" by auto
  then show ?case using b by (simp add: d1_eq splits_store_def)
qed

lemma exec_all_splits_comp:
  "exec_all (map (INSERT_bill_splits \<circ> mk) xs) d = Inr d' \<Longrightarrow>
     d' = splits_store (map mk xs) d \<and> debtorUserId ` mk ` set xs \<subseteq> u_userId ` set (users d)"
  using exec_all_splits[of "map mk xs" d d'] by (simp add: image_image)

lemma wp_exists_readonly:
  assumes "\<And>r s'. store s' = store s \<Longrightarrow> Q r s'"
  shows "wp (UserRepository_exists u) s Q"
  unfolding UserRepository_exists_def UserRepository_findById_def
  by (simp, rule wp_Database_get) (auto simp: assms split: option.splits sum.splits)

lemma wp_mapM_readonly:
  assumes f: "\<And>x s Q. (\<And>r s'. store s' = store s \<Longrightarrow> Q r s') \<Longrightarrow> wp (f x) s Q"
    and Q: "\<And>r s'. store s' = store s \<Longrightarrow> Q r s'"
  shows "wp (mapM f xs) s Q"
  using Q
proof (induction xs arbitrary: s Q)
  case Nil
  then show ?case by simp
next
  case (Cons x xs)
  show ?case
    apply (simp, rule f)
    apply (simp split: sum.splits, intro conjI allI impI)
     apply (simp add: Cons.prems)
    apply (rule Cons.IH)
    apply (simp add: Cons.prems split: sum.splits)
    done
qed

lemma wp_mapM_lift:
  assumes "\<And>e. Q (Inl e) s" and "\<And>ys. map g xs = map Inr ys \<Longrightarrow> Q (Inr ys) s"
  shows "wp (mapM (\<lambda>x. lift (g x)) xs) s Q"
  using assms
proof (induction xs arbitrary: Q)
  case Nil
  then show ?case by simp
next
  case (Cons x xs)
  show ?case
    apply (simp split: sum.splits, intro conjI allI impI)
     apply (simp add: Cons.prems)
    apply (rule Cons.IH)
     apply (simp add: Cons.prems)
    apply (simp add: Cons.prems)
    done
qed

lemma validate_all:
  "map (\<lambda>x. BillSplit_validate (mk x)) xs = map Inr ys \<Longrightarrow>
     ys = map mk xs \<and> (\<forall>x \<in> set xs. 0 < shareAmount (mk x) \<and> shareAmount (mk x) \<le> totalAmount (mk x))"
proof (induction xs arbitrary: ys)
  case Nil
  then show ?case by simp
next
  case (Cons x xs)
  then show ?case
    by (cases ys) (auto simp: BillSplit_validate_def split: if_splits)
qed

lemma wp_TransactionRepository_findById:
  assumes "\<And>e s'. store s' = store s \<Longrightarrow> Q (Inl e) s'"
    and "\<And>s'. store s' = store s \<Longrightarrow> SELECT_transaction i (store s) = None \<Longrightarrow> Q (Inr None) s'"
    and "\<And>s' t. store s' = store s \<Longrightarrow> SELECT_transaction i (store s) = Some t \<Longrightarrow> 0 < amount t
            \<Longrightarrow> Q (Inr (Some t)) s'"
  shows "wp (TransactionRepository_findById i) s Q"
  unfolding TransactionRepository_findById_def
  by (simp, rule wp_Database_get)
     (auto simp: assms Transaction_validate_def split: option.splits)

lemma createEqualSplit_wp:
  "wp (createEqualSplit payer txid debtors) s (\<lambda>r s'.
     case r of Inl e \<Rightarrow> False
     | Inr (Failure m) \<Rightarrow> store s' = store s
     | Inr (Success res) \<Rightarrow>
         (\<exists>otx. SELECT_transaction txid (store s) = Some otx \<and> userId otx = payer \<and>
            (let D = filter (\<lambda>i. i \<noteq> payer) debtors in
             D \<noteq> [] \<and> set D \<subseteq> u_userId ` set (users (store s)) \<and>
             0 < round2 (amount otx / of_nat (length D + 1)) \<and>
             store s' = splits_store (map (equal_split payer txid otx (length D)) D) (store s))))"
  unfolding createEqualSplit_def BillSplitRepository_createMultiple_def new_BillSplit_def
  apply (simp add: Let_def, intro conjI impI)
  apply (rule wp_TransactionRepository_findById)
    apply simp_all
  apply (intro conjI impI)
  apply (rule wp_mapM_readonly)
   apply (erule wp_exists_readonly)
  apply (simp split: sum.splits, intro conjI impI allI)
  apply (rule wp_mapM_lift)
   apply simp
  apply (drule validate_all)
  apply (simp, rule wp_Database_transaction)
   apply simp
  apply (drule exec_all_splits_comp)
  apply (auto simp: equal_split_def image_iff filter_empty_conv add.commute cong: map_cong)
  done

lemma createWeightedSplit_wp:
  "wp (createWeightedSplit payer txid dw) s (\<lambda>r s'.
     case r of Inl e \<Rightarrow> False
     | Inr (Failure m) \<Rightarrow> store s' = store s
     | Inr (Success res) \<Rightarrow>
         (\<exists>otx. SELECT_transaction txid (store s) = Some otx \<and> userId otx = payer \<and>
            (let D = filter (\<lambda>item. fst item \<noteq> payer) dw;
                 W = foldl (\<lambda>sum item. sum + snd item) 0 D in
             D \<noteq> [] \<and> (\<forall>item \<in> set D. 0 < snd item) \<and>
             fst ` set D \<subseteq> u_userId ` set (users (store s)) \<and>
             (\<forall>item \<in> set D. 0 < round2 (amount otx * snd item / W)) \<and>
             store s' = splits_store (map (weighted_split payer txid otx W) D) (store s))))"
  unfolding createWeightedSplit_def BillSplitRepository_createMultiple_def new_BillSplit_def
  apply (simp add: Let_def, intro conjI impI)
  apply (rule wp_TransactionRepository_findById)
    apply simp_all
  apply (intro conjI impI)
  apply (rule wp_mapM_readonly)
   apply (erule wp_exists_readonly)
  apply (simp split: sum.splits, intro conjI impI allI)
  apply (rule wp_mapM_lift)
   apply simp
  apply (drule validate_all)
  apply (simp, rule wp_Database_transaction)
   apply simp
  apply (drule exec_all_splits_comp)
  apply (simp add: weighted_split_def[abs_def] Let_def image_image list_ex_iff)
  apply (meson not_le_imp_less)
  done

lemma wp_filter_first_time:
  assumes "\<And>e s'. store s' = store s \<Longrightarrow> Q (Inl e) s'"
    and "\<And>s'. store s' = store s \<Longrightarrow>
           Q (Inr (acc @ filter (\<lambda>r. first_time_only r \<longrightarrow> COUNT_cashback u (rule_id r) (store s) = 0) rules)) s'"
  shows "wp (filter_first_time u rules acc) s Q"
  using assms
proof (induction rules arbitrary: acc s Q)
  case Nil
  then show ?case by simp
next
  case (Cons rule rules)
  show ?case
  proof (cases "first_time_only rule")
    case True
    show ?thesis
      apply (simp add: True, rule wp_Database_get)
       apply (simp add: Cons.prems)
      apply (simp, intro conjI impI)
       apply (rule Cons.IH; simp add: Cons.prems)
       apply (insert Cons.prems(2), simp add: True)[1]
      apply (rule Cons.IH; simp add: Cons.prems)
      apply (insert Cons.prems(2), simp add: True)[1]
      done
  next
    case False
    show ?thesis
      apply (simp add: False)
      apply (rule Cons.IH; simp add: Cons.prems)
      apply (insert Cons.prems(2), simp add: False)[1]
      done
  qed
qed

lemma wp_getApplicableCashbackRules:
  assumes "\<And>s'. store s' = store s \<Longrightarrow> Q (Inr []) s'"
    and "\<And>s'. store s' = store s \<Longrightarrow> Q (Inr (applicable now u cat (store s))) s'"
  shows "wp (getApplicableCashbackRules now u cat) s Q"
  unfolding getApplicableCashbackRules_def
  apply (simp, rule wp_Database_query)
   apply (simp add: assms)
  apply (simp, rule wp_filter_first_time)
   apply (simp add: assms)
  apply (insert assms(2), simp add: applicable_def)
  done

lemma cb_inv_refl: "cb_inv u rules d d"
  by (simp add: cb_inv_def)

lemma cb_inv_eq: "d' = d \<Longrightarrow> cb_inv u rules d d'"
  by (simp add: cb_inv_def)

lemma cb_inv_skip: "cb_inv u rules d d' \<Longrightarrow> cb_inv u (rule # rules) d d'"
  by (auto simp: cb_inv_def intro: le_trans)

lemma userIds_upd:
  "map w_userId (map (\<lambda>w. if w_userId w = u then w\<lparr>balance := g w\<rparr> else w) ws) = map w_userId ws"
  by (induction ws) auto

lemma wallets_ok_plus:
  "wallets_ok d \<Longrightarrow> 0 \<le> c \<Longrightarrow>
   wallets_ok (d\<lparr>wallets := map (\<lambda>w. if w_userId w = u then w\<lparr>balance := balance w + c\<rparr> else w) (wallets d)\<rparr>)"
  by (auto simp: wallets_ok_def userIds_upd simp del: map_map)

lemma COUNT_insert:
  "COUNT_cashback u rid (d\<lparr>transactions := transactions d @ [tx]\<rparr>) =
     COUNT_cashback u rid d +
       (if userId tx = u \<and> txType tx = cashback \<and> map_of (meta tx) ''rule_id'' = Some rid then 1 else 0)"
  by (simp add: COUNT_cashback_def)

lemma COUNT_wallets [simp]:
  "COUNT_cashback u rid (d\<lparr>wallets := ws\<rparr>) = COUNT_cashback u rid d"
  by (simp add: COUNT_cashback_def)

lemma cb_inv_inserted:
  assumes "d1 = d\<lparr>transactions := transactions d @ [tx]\<rparr>"
    and "userId tx = u" "txType tx = cashback" "map_of (meta tx) ''rule_id'' = Some (rule_id rule)"
  shows "cb_inv u (rule # rules) d d1"
  using assms by (auto simp: cb_inv_def COUNT_insert wallets_ok_def)

lemma cb_inv_step:
  assumes "d1 = d\<lparr>transactions := transactions d @ [tx]\<rparr>"
    and "userId tx = u" "txType tx = cashback" "map_of (meta tx) ''rule_id'' = Some (rule_id rule)"
    and "0 < c"
    and "d2 = d1\<lparr>wallets := map (\<lambda>w. if w_userId w = u then w\<lparr>balance := balance w + c\<rparr> else w) (wallets d1)\<rparr>"
    and "cb_inv u rules d2 d'"
  shows "cb_inv u (rule # rules) d d'"
proof -
  have w: "wallets_ok d \<Longrightarrow> wallets_ok d2"
    using wallets_ok_plus[of d1 c u] assms(1,5,6) by (simp add: wallets_ok_def)
  have c: "COUNT_cashback u rid d2 = COUNT_cashback u rid d + (if rid = rule_id rule then 1 else 0)" for rid
    using assms(1-4,6) by (auto simp: COUNT_insert)
  have r: "cashback_rules d2 = cashback_rules d" using assms(1,6) by simp
  have o: "COUNT_cashback v rid d2 = COUNT_cashback v rid d" if "v \<noteq> u" for v rid
    using assms(1,2,6) that by (auto simp: COUNT_insert)
  from assms(7) have i1: "wallets_ok d2 \<longrightarrow> wallets_ok d'" and i2: "cashback_rules d' = cashback_rules d2"
    and i3: "\<And>v rid. v \<noteq> u \<Longrightarrow> COUNT_cashback v rid d' = COUNT_cashback v rid d2"
    and i4: "\<And>rid. COUNT_cashback u rid d2 \<le> COUNT_cashback u rid d'"
    and i5: "\<And>rid. COUNT_cashback u rid d' \<le> COUNT_cashback u rid d2 + count_list (map rule_id rules) rid"
    by (simp_all add: cb_inv_def)
  have a: "COUNT_cashback u rid d \<le> COUNT_cashback u rid d'" for rid
    using i4[of rid] c[of rid] by simp
  have b: "COUNT_cashback u rid d' \<le> COUNT_cashback u rid d + count_list (map rule_id (rule # rules)) rid" for rid
    using i5[of rid] c[of rid] by (cases "rid = rule_id rule") simp_all
  show ?thesis
    unfolding cb_inv_def using w i1 i2 r i3 o a b by simp
qed

lemma cb_post_Inl: "cb_inv u rules d d' \<Longrightarrow> cb_post u rules ap d (Inl e) d'"
  by (simp add: cb_post_def)

lemma cb_post_skip: "cb_post u rules ap d r d' \<Longrightarrow> cb_post u (rule # rules) ap d r d'"
  by (auto simp: cb_post_def cb_inv_skip split: sum.splits)

lemma cb_post_step:
  assumes "d1 = d\<lparr>transactions := transactions d @ [tx]\<rparr>"
    and "userId tx = u" "txType tx = cashback" "map_of (meta tx) ''rule_id'' = Some (rule_id rule)"
    and "0 < c"
    and "d2 = d1\<lparr>wallets := map (\<lambda>w. if w_userId w = u then w\<lparr>balance := balance w + c\<rparr> else w) (wallets d1)\<rparr>"
    and "cb_post u rules (ap @ [(rule_id rule, c)]) d2 r d'"
  shows "cb_post u (rule # rules) ap d r d'"
proof -
  have inv: "cb_inv u (rule # rules) d d'"
    using assms by (auto simp: cb_post_def intro: cb_inv_step)
  have c: "COUNT_cashback u rid d2 = COUNT_cashback u rid d + (if rid = rule_id rule then 1 else 0)" for rid
    using assms(1-4,6) by (auto simp: COUNT_insert)
  show ?thesis
  proof (cases r)
    case (Inl e)
    then show ?thesis using inv by (simp add: cb_post_def)
  next
    case (Inr x)
    obtain tot' ap' where x: "x = (tot', ap')" by (cases x)
    from assms(7) Inr x obtain new where new: "ap' = (ap @ [(rule_id rule, c)]) @ new"
      "fst ` set new \<subseteq> rule_id ` set rules"
      "\<And>rid. COUNT_cashback u rid d' = COUNT_cashback u rid d2 + count_list (map fst new) rid"
      by (auto simp: cb_post_def)
    have "ap' = ap @ ((rule_id rule, c) # new)" using new(1) by simp
    moreover have "fst ` set ((rule_id rule, c) # new) \<subseteq> rule_id ` set (rule # rules)"
      using new(2) by auto
    moreover have "COUNT_cashback u rid d' =
        COUNT_cashback u rid d + count_list (map fst ((rule_id rule, c) # new)) rid" for rid
      using new(3)[of rid] c[of rid] by simp
    ultimately show ?thesis using inv Inr x unfolding cb_post_def
      by (simp only: sum.case prod.case) blast
  qed
qed

lemma exec_INSERT_transactions:
  "exec (INSERT_transactions t) d = Inr d' \<Longrightarrow> d' = d\<lparr>transactions := transactions d @ [t]\<rparr>"
  by (auto split: if_splits)

lemma exec_UPDATE_wallets_plus:
  "exec (UPDATE_wallets_plus c u) d = Inr d' \<Longrightarrow>
     d' = d\<lparr>wallets := map (\<lambda>w. if w_userId w = u then w\<lparr>balance := balance w + c\<rparr> else w) (wallets d)\<rparr>"
  by auto

lemma wp_apply_rules:
  "wp (apply_rules u m a p rules (tot, ap)) s (\<lambda>r s'. cb_post u rules ap (store s) r (store s'))"
proof (induction rules arbitrary: s tot ap)
  case Nil
  show ?case by (simp add: cb_post_def cb_inv_refl)
next
  case (Cons rule rules)
  define c where "c = calculateCashbackAmount rule a"
  show ?case
  proof (cases "0 < c")
    case False
    then show ?thesis
      by (simp add: Let_def c_def[symmetric]) (rule wp_mono[OF Cons.IH], erule cb_post_skip)
  next
    case True
    show ?thesis
      apply (simp add: Let_def c_def[symmetric] True new_Transaction_def Transaction_validate_def
                       TransactionRepository_create_def)
      apply (rule wp_uuidv4)
      apply (simp, intro conjI impI)
        apply (simp_all add: cb_post_Inl cb_inv_eq)
      apply (rule wp_Database_run)
       apply (simp add: cb_post_Inl cb_inv_eq)
      apply (drule exec_INSERT_transactions)
      apply simp
      apply (rule wp_Database_run)
       apply (simp, rule cb_post_Inl, rule cb_inv_inserted[OF refl]; simp)
      apply (drule exec_UPDATE_wallets_plus)
      apply (simp only: sum.case)
      apply (rule wp_mono[OF Cons.IH])
      apply (erule cb_post_step[rotated -1, where c = c and u = u and rule = rule])
           apply assumption
          apply simp
         apply simp
        apply simp
       apply (simp add: True)
      apply simp
      done
  qed
qed

lemma cashback_post_same:
  "d' = d \<Longrightarrow> appliedRules res = [] \<Longrightarrow> cashback_post now u m d res d'"
  by (simp add: cashback_post_def cb_inv_refl)

lemma calculateAndApplyCashback_wp:
  "wp (calculateAndApplyCashback now u m a p) s (\<lambda>r s'.
     case r of Inl e \<Rightarrow> False | Inr res \<Rightarrow> cashback_post now u m (store s) res (store s'))"
  unfolding calculateAndApplyCashback_def
  apply (simp, rule wp_Database_get)
   apply (simp add: cashback_post_same)
  apply (simp split: option.splits, intro conjI impI allI)
   apply (simp add: cashback_post_same)
  apply (rule wp_getApplicableCashbackRules)
   apply (simp add: cashback_post_same)
  apply (simp, intro conjI impI)
   apply (simp add: cashback_post_same)
  apply (rule wp_mono[OF wp_apply_rules])
  apply (auto simp: cb_post_def cashback_post_def cb_rules_def split: sum.splits prod.splits)
  done

lemma wp_snd: "wp m s Q \<Longrightarrow> Q (fst (m s)) (snd (m s))"
  by (simp add: wp_def split: prod.splits)

lemma find_unique:
  "distinct (map w_userId ws) \<Longrightarrow> find (\<lambda>w. w_userId w = u) ws = Some fw \<Longrightarrow>
   w \<in> set ws \<Longrightarrow> w_userId w = u \<Longrightarrow> w = fw"
  by (induction ws) (auto split: if_splits simp: image_iff)

lemma wallets_ok_minus:
  assumes "wallets_ok d" "SELECT_wallet u d = Some fw" "a \<le> balance fw"
  shows "wallets_ok (d\<lparr>wallets := map (\<lambda>w. if w_userId w = u then w\<lparr>balance := balance w - a\<rparr> else w) (wallets d)\<rparr>)"
proof -
  have "0 \<le> balance w - a" if "w \<in> set (wallets d)" "w_userId w = u" for w
    using find_unique[of "wallets d" u fw w] that assms by (simp add: wallets_ok_def SELECT_wallet_def)
  then show ?thesis
    using assms(1) by (auto simp: wallets_ok_def userIds_upd simp del: map_map)
qed

lemma wallets_ok_cong: "wallets d' = wallets d \<Longrightarrow> wallets_ok d' = wallets_ok d"
  by (simp add: wallets_ok_def)

lemma wallets_ok_transfer:
  assumes "wallets_ok d" "SELECT_wallet F d = Some fw" "a \<le> balance fw" "0 \<le> a"
  shows "wallets_ok (transfer_store F T a otx itx d)"
proof -
  let ?d1 = "d\<lparr>wallets := map (\<lambda>w. if w_userId w = F then w\<lparr>balance := balance w - a\<rparr> else w) (wallets d)\<rparr>"
  have "wallets_ok ?d1" using assms(1-3) by (rule wallets_ok_minus)
  from wallets_ok_plus[OF this assms(4), of T]
  show ?thesis by (simp add: transfer_store_def wallets_ok_def)
qed

lemma wallets_ok_pay:
  assumes "wallets_ok d" "SELECT_wallet u d = Some fw" "a \<le> balance fw"
  shows "wallets_ok (pay_store u a tx d)"
  using wallets_ok_minus[OF assms] by (simp add: pay_store_def wallets_ok_def)

lemma wallets_ok_topup:
  assumes "wallets_ok d" "0 \<le> a"
  shows "wallets_ok (topup_store u a tx d)"
  using wallets_ok_plus[OF assms, of u] by (simp add: topup_store_def wallets_ok_def)

lemma wallets_ok_splits [simp]: "wallets_ok (splits_store bs d) = wallets_ok d"
  by (simp add: splits_store_def wallets_ok_def)

lemma wallets_ok_status [simp]: "wallets_ok (status_store st i d) = wallets_ok d"
  by (simp add: status_store_def wallets_ok_def)

lemma step_wallets_ok: "wallets_ok (store s) \<Longrightarrow> wallets_ok (store (step x s))"
proof (cases x)
  case (Transfer f t a)
  show "wallets_ok (store s) \<Longrightarrow> ?thesis"
    using wp_snd[OF transferMoney_wp[of f t a s]] unfolding Transfer
    by (auto split: sum.splits result.splits intro!: wallets_ok_transfer)
next
  case (Pay u m a)
  show "wallets_ok (store s) \<Longrightarrow> ?thesis"
    using wp_snd[OF processPayment_wp[of u m a s]] unfolding Pay
    by (auto split: sum.splits result.splits intro!: wallets_ok_pay)
next
  case (TopUp u a)
  show "wallets_ok (store s) \<Longrightarrow> ?thesis"
    using wp_snd[OF topUpWallet_wp[of u a s]] unfolding TopUp
    by (auto split: sum.splits result.splits intro!: wallets_ok_topup)
next
  case (QRPay now u q)
  show "wallets_ok (store s) \<Longrightarrow> ?thesis"
    using wp_snd[OF processQRPayment_wp[of now u q s]] unfolding QRPay
    by (auto split: sum.splits result.splits intro!: wallets_ok_pay)
next
  case (EqualSplit p t ds)
  show "wallets_ok (store s) \<Longrightarrow> ?thesis"
    using wp_snd[OF createEqualSplit_wp[of p t ds s]] unfolding EqualSplit
    by (auto split: sum.splits result.splits simp: Let_def)
next
  case (WeightedSplit p t dw)
  show "wallets_ok (store s) \<Longrightarrow> ?thesis"
    using wp_snd[OF createWeightedSplit_wp[of p t dw s]] unfolding WeightedSplit
    by (auto split: sum.splits result.splits simp: Let_def)
next
  case (Settle i u)
  show "wallets_ok (store s) \<Longrightarrow> ?thesis"
    using wp_snd[OF settleBillSplit_wp[of i u s]] unfolding Settle
    by (auto split: sum.splits simp: moved_def intro!: wallets_ok_transfer)
next
  case (Cancel i u)
  show "wallets_ok (store s) \<Longrightarrow> ?thesis"
    using wp_snd[OF cancelBillSplit_wp[of i u s]] unfolding Cancel
    by (auto split: sum.splits result.splits)
next
  case (Cashback now u m a p)
  show "wallets_ok (store s) \<Longrightarrow> ?thesis"
    using wp_snd[OF calculateAndApplyCashback_wp[of now u m a p s]] unfolding Cashback
    by (auto split: sum.splits simp: cashback_post_def cb_inv_def)
qed

lemma run_wallets_ok: "wallets_ok (store s) \<Longrightarrow> wallets_ok (store (run ops s))"
  by (induction ops arbitrary: s) (auto intro: step_wallets_ok)

lemma wp_run: "wp m s Q \<Longrightarrow> m s = (r, s') \<Longrightarrow> Q r s'"
  by (simp add: wp_def)





lemma balance_of_Some: "balance_of d u = Some b \<Longrightarrow> SELECT_wallet u d = Some w \<Longrightarrow> balance w = b"
  by (simp add: balance_of_def)

lemma transfer_insufficient:
  assumes "balance_of (store s) F = Some b" "b < a"
  shows "(\<exists>m. fst (PaymentService_transferMoney F T a s) = Inr (Failure m)) \<and>
         store (snd (PaymentService_transferMoney F T a s)) = store s"
  using wp_snd[OF transferMoney_wp[of F T a s]] assms
  by (auto split: sum.splits result.splits dest: balance_of_Some)

lemma payment_insufficient:
  assumes "balance_of (store s) u = Some b" "b < a"
  shows "(\<exists>msg. fst (processPayment u m a s) = Inr (Failure msg)) \<and>
         store (snd (processPayment u m a s)) = store s"
  using wp_snd[OF processPayment_wp[of u m a s]] assms
  by (auto split: sum.splits result.splits dest: balance_of_Some)

lemma qr_insufficient:
  assumes "balance_of (store s) u = Some b" "qr_amount qi = Amount a" "b < a"
  shows "(\<exists>msg. fst (processQRPayment now u (Info qi) s) = Inr (Failure msg)) \<and>
         store (snd (processQRPayment now u (Info qi) s)) = store s"
  using wp_snd[OF processQRPayment_wp[of now u "Info qi" s]] assms
  by (auto split: sum.splits result.splits dest: balance_of_Some)

lemma not_success: "\<not> success r \<Longrightarrow> \<exists>m. r = Failure m"
  by (cases r) (simp_all add: success_def)

lemma settle_insufficient:
  assumes "SELECT_bill_split i (store s) = Some sp" "balance_of (store s) u = Some b"
    "b < shareAmount sp"
  shows "(\<exists>msg. fst (settleBillSplit i u s) = Inr (Failure msg)) \<and>
         store (snd (settleBillSplit i u s)) = store s"
  using wp_snd[OF settleBillSplit_wp[of i u s]] assms
  by (auto split: sum.splits dest: balance_of_Some not_success)

text \<open>
  C2.  Operations are run one after another (\<open>run\<close>), each to completion, under any storage-fault
  and uuid oracle.  If the wallet table has one row per user and no negative balance, then it
  still has after any sequence of operations (transfer, payment, top-up, QR payment, the two split
  creations, settlement, cancellation, cashback).  Moreover every debit the user's balance does
  not cover (transfer, payment, QR payment, settlement of a split) returns a failure result and
  leaves the whole store as it was: no balance changes and no Transaction record is inserted.
\<close>
theorem balances_never_negative:
  "(wallets_ok (store s) \<longrightarrow> wallets_ok (store (run ops s))) \<and>
   (\<forall>b. balance_of (store s) u = Some b \<and> b < a \<longrightarrow>
      (\<exists>msg. fst (PaymentService_transferMoney u T a s) = Inr (Failure msg)) \<and>
      store (snd (PaymentService_transferMoney u T a s)) = store s) \<and>
   (\<forall>b. balance_of (store s) u = Some b \<and> b < a \<longrightarrow>
      (\<exists>msg. fst (processPayment u m a s) = Inr (Failure msg)) \<and>
      store (snd (processPayment u m a s)) = store s) \<and>
   (\<forall>b. balance_of (store s) u = Some b \<and> qr_amount qi = Amount a \<and> b < a \<longrightarrow>
      (\<exists>msg. fst (processQRPayment now u (Info qi) s) = Inr (Failure msg)) \<and>
      store (snd (processQRPayment now u (Info qi) s)) = store s) \<and>
   (\<forall>b sp. SELECT_bill_split i (store s) = Some sp \<and> balance_of (store s) u = Some b \<and>
       b < shareAmount sp \<longrightarrow>
      (\<exists>msg. fst (settleBillSplit i u s) = Inr (Failure msg)) \<and>
      store (snd (settleBillSplit i u s)) = store s)"
  using run_wallets_ok[of s ops] transfer_insufficient[of s u _ a T]
    payment_insufficient[of s u _ a m] qr_insufficient[of s u _ qi a now]
    settle_insufficient[of i s _ u]
  by blast












lemma count_list_distinct: "distinct xs \<Longrightarrow> count_list xs x \<le> 1"
proof (induction xs)
  case Nil
  then show ?case by simp
next
  case (Cons y xs)
  show ?case
  proof (cases "x = y")
    case True
    with Cons.prems have "x \<notin> set xs" by simp
    then have "count_list xs x = 0" by (simp add: count_list_0_iff)
    with True show ?thesis by simp
  next
    case False
    with Cons show ?thesis by simp
  qed
qed

lemma applicable_sub: "set (applicable now u cat d) \<subseteq> set (cashback_rules d)"
  unfolding applicable_def SELECT_cashback_rules_def by (simp add: subset_iff)

lemma cb_rules_sub: "set (cb_rules now u m d) \<subseteq> set (cashback_rules d)"
  unfolding cb_rules_def using applicable_sub by (cases "SELECT_merchant m d") simp_all

lemma applicable_distinct:
  "distinct (map rule_id (cashback_rules d)) \<Longrightarrow> distinct (map rule_id (applicable now u cat d))"
  unfolding applicable_def SELECT_cashback_rules_def by (intro distinct_map_filter)

lemma cb_rules_distinct:
  "distinct (map rule_id (cashback_rules d)) \<Longrightarrow> distinct (map rule_id (cb_rules now u m d))"
  unfolding cb_rules_def using applicable_distinct by (cases "SELECT_merchant m d") simp_all

lemma applicable_gate:
  "r \<in> set (applicable now u cat d) \<Longrightarrow> first_time_only r \<Longrightarrow> COUNT_cashback u (rule_id r) d = 0"
  unfolding applicable_def by simp

lemma cb_rules_gate:
  "r \<in> set (cb_rules now u m d) \<Longrightarrow> first_time_only r \<Longrightarrow> COUNT_cashback u (rule_id r) d = 0"
  unfolding cb_rules_def using applicable_gate by (cases "SELECT_merchant m d") simp_all

lemma rule_id_unique:
  assumes "distinct (map rule_id rs)" "r \<in> set rs" "r' \<in> set rs" "rule_id r' = rule_id r"
  shows "r' = r"
proof -
  from assms(1) have "inj_on rule_id (set rs)" by (simp only: distinct_map)
  from inj_onD[OF this assms(4) assms(3) assms(2)] show ?thesis .
qed

lemma first_time_gate:
  assumes dist: "distinct (map rule_id (cashback_rules (store s)))"
    and rule: "rule \<in> set (cashback_rules (store s))" "first_time_only rule"
    and run: "calculateAndApplyCashback now u m a p s = (r, s')"
  shows "\<exists>res. r = Inr res \<and> cashback_rules (store s') = cashback_rules (store s) \<and>
     (rule_id rule \<in> fst ` set (appliedRules res) \<longrightarrow>
        COUNT_cashback u (rule_id rule) (store s) = 0 \<and>
        COUNT_cashback u (rule_id rule) (store s') = 1) \<and>
     (0 < COUNT_cashback u (rule_id rule) (store s) \<longrightarrow>
        rule_id rule \<notin> fst ` set (appliedRules res) \<and>
        COUNT_cashback u (rule_id rule) (store s') = COUNT_cashback u (rule_id rule) (store s)) \<and>
     COUNT_cashback u (rule_id rule) (store s') \<le> max 1 (COUNT_cashback u (rule_id rule) (store s)) \<and>
     (\<forall>v. v \<noteq> u \<longrightarrow>
        COUNT_cashback v (rule_id rule) (store s') = COUNT_cashback v (rule_id rule) (store s))"
proof -
  let ?rid = "rule_id rule" and ?R = "cb_rules now u m (store s)"
  let ?c = "COUNT_cashback u ?rid (store s)" and ?c' = "COUNT_cashback u ?rid (store s')"
  from wp_run[OF calculateAndApplyCashback_wp run] obtain res where res: "r = Inr res"
    and post: "cashback_post now u m (store s) res (store s')"
    by (cases r) auto
  from post have inv: "cb_inv u ?R (store s) (store s')"
    and sub: "fst ` set (appliedRules res) \<subseteq> rule_id ` set ?R"
    and cnt: "appliedRules res \<noteq> [] \<Longrightarrow> ?c' = ?c + count_list (map fst (appliedRules res)) ?rid"
    by (simp_all add: cashback_post_def)
  from inv have same: "cashback_rules (store s') = cashback_rules (store s)"
    and lo: "?c \<le> ?c'" and hi: "?c' \<le> ?c + count_list (map rule_id ?R) ?rid"
    and other: "\<And>v. v \<noteq> u \<Longrightarrow> COUNT_cashback v ?rid (store s') = COUNT_cashback v ?rid (store s)"
    by (simp_all add: cb_inv_def)
  have one: "count_list (map rule_id ?R) ?rid \<le> 1"
    by (rule count_list_distinct) (rule cb_rules_distinct[OF dist])
  have gate: "?c = 0" if "?rid \<in> rule_id ` set ?R"
  proof -
    from that obtain r' where r': "r' \<in> set ?R" "rule_id r' = ?rid" by auto
    with cb_rules_sub have "r' \<in> set (cashback_rules (store s))" by blast
    from rule_id_unique[OF dist rule(1) this r'(2)] have "r' = rule" .
    with r'(1) rule(2) show ?thesis by (simp add: cb_rules_gate)
  qed
  have zero: "count_list (map rule_id ?R) ?rid = 0" if "0 < ?c"
    using gate that by (auto simp: count_list_0_iff)
  have A: "?c = 0 \<and> ?c' = 1" if "?rid \<in> fst ` set (appliedRules res)"
  proof -
    from that sub have "?rid \<in> rule_id ` set ?R" by blast
    then have c0: "?c = 0" by (rule gate)
    from that have ne: "appliedRules res \<noteq> []" by auto
    from that have "?rid \<in> set (map fst (appliedRules res))" by simp
    then have "count_list (map fst (appliedRules res)) ?rid \<noteq> 0"
      by (simp add: count_list_0_iff)
    then have k: "0 < count_list (map fst (appliedRules res)) ?rid" by simp
    from cnt[OF ne] k hi one c0 have "?c' = 1" by linarith
    with c0 show ?thesis by (rule conjI)
  qed
  have B: "?rid \<notin> fst ` set (appliedRules res) \<and> ?c' = ?c" if "0 < ?c"
  proof
    show "?rid \<notin> fst ` set (appliedRules res)"
    proof
      assume "?rid \<in> fst ` set (appliedRules res)"
      from A[OF this] that show False by linarith
    qed
    from zero[OF that] lo hi show "?c' = ?c" by linarith
  qed
  have C: "?c' \<le> max 1 ?c"
  proof (cases "0 < ?c")
    case True
    from B[OF this] show ?thesis by linarith
  next
    case False
    with hi one show ?thesis by linarith
  qed
  show ?thesis
  proof (intro exI[of _ res] conjI impI allI)
    show "r = Inr res" by (rule res)
    show "cashback_rules (store s') = cashback_rules (store s)" by (rule same)
    show "?c = 0" if "?rid \<in> fst ` set (appliedRules res)" using A[OF that] by simp
    show "?c' = 1" if "?rid \<in> fst ` set (appliedRules res)" using A[OF that] by simp
    show "?rid \<notin> fst ` set (appliedRules res)" if "0 < ?c" using B[OF that] by simp
    show "?c' = ?c" if "0 < ?c" using B[OF that] by simp
    show "?c' \<le> max 1 ?c" by (rule C)
    show "COUNT_cashback v ?rid (store s') = COUNT_cashback v ?rid (store s)" if "v \<noteq> u" for v
      by (rule other[OF that])
  qed
qed

text \<open>
  C7 (\<open>CashbackService\<close>, first-time gate).  Rule ids are the primary key of \<open>cashback_rules\<close>.  For a
  rule marked \<open>first_time_only\<close>, a payment evaluation and its replay for the same user both return a
  cashback summary, and: if the first evaluation applies the rule, the user had no cashback
  Transaction tagged with the rule id before, has exactly one afterwards, the replay does not
  apply the rule and the user still has exactly one; if the user already had such a Transaction,
  neither evaluation applies the rule and their number does not change.  So the number of
  cashback Transactions of the user tagged with the rule never grows beyond one.
\<close>
theorem first_time_only_once:
  assumes "distinct (map rule_id (cashback_rules (store s)))"
    and "rule \<in> set (cashback_rules (store s))" and "first_time_only rule"
    and "calculateAndApplyCashback now u m a p s = (r, s')"
    and "calculateAndApplyCashback now u m a p s' = (r2, s'')"
  shows "\<exists>res res2. r = Inr res \<and> r2 = Inr res2 \<and>
     (rule_id rule \<in> fst ` set (appliedRules res) \<longrightarrow>
        COUNT_cashback u (rule_id rule) (store s) = 0 \<and>
        COUNT_cashback u (rule_id rule) (store s') = 1 \<and>
        rule_id rule \<notin> fst ` set (appliedRules res2) \<and>
        COUNT_cashback u (rule_id rule) (store s'') = 1) \<and>
     (0 < COUNT_cashback u (rule_id rule) (store s) \<longrightarrow>
        rule_id rule \<notin> fst ` set (appliedRules res) \<and>
        rule_id rule \<notin> fst ` set (appliedRules res2) \<and>
        COUNT_cashback u (rule_id rule) (store s'') = COUNT_cashback u (rule_id rule) (store s)) \<and>
     COUNT_cashback u (rule_id rule) (store s'') \<le> max 1 (COUNT_cashback u (rule_id rule) (store s))"
proof -
  define c0 where "c0 = COUNT_cashback u (rule_id rule) (store s)"
  define c1 where "c1 = COUNT_cashback u (rule_id rule) (store s')"
  define c2 where "c2 = COUNT_cashback u (rule_id rule) (store s'')"
  from first_time_gate[OF assms(1-4), folded c0_def c1_def] obtain res where res: "r = Inr res"
    and same: "cashback_rules (store s') = cashback_rules (store s)"
    and g1: "rule_id rule \<in> fst ` set (appliedRules res) \<longrightarrow> c0 = 0 \<and> c1 = 1"
    and g2: "0 < c0 \<longrightarrow> rule_id rule \<notin> fst ` set (appliedRules res) \<and> c1 = c0"
    and g3: "c1 \<le> max 1 c0"
    by (elim exE conjE)
  have d': "distinct (map rule_id (cashback_rules (store s')))"
    and r': "rule \<in> set (cashback_rules (store s'))"
    using assms(1,2) same by simp_all
  from first_time_gate[OF d' r' assms(3,5), folded c1_def c2_def] obtain res2 where res2: "r2 = Inr res2"
    and h2: "0 < c1 \<longrightarrow> rule_id rule \<notin> fst ` set (appliedRules res2) \<and> c2 = c1"
    and h3: "c2 \<le> max 1 c1"
    by (elim exE conjE)
  define p1 where "p1 \<longleftrightarrow> rule_id rule \<in> fst ` set (appliedRules res)"
  define p2 where "p2 \<longleftrightarrow> rule_id rule \<in> fst ` set (appliedRules res2)"
  have f: "p1 \<longrightarrow> c0 = 0 \<and> c1 = 1" "0 < c0 \<longrightarrow> \<not> p1 \<and> c1 = c0" "c1 \<le> max 1 c0"
    "0 < c1 \<longrightarrow> \<not> p2 \<and> c2 = c1" "c2 \<le> max 1 c1"
    using g1 g2 g3 h2 h3 unfolding p1_def p2_def by simp_all
  have g: "(p1 \<longrightarrow> c0 = 0 \<and> c1 = 1 \<and> \<not> p2 \<and> c2 = 1) \<and>
           (0 < c0 \<longrightarrow> \<not> p1 \<and> \<not> p2 \<and> c2 = c0) \<and> c2 \<le> max 1 c0"
    using f by (cases "0 < c0"; cases p1) (simp_all add: max_def split: if_splits)
  show ?thesis
    apply (rule exI[of _ res], rule exI[of _ res2])
    using res res2 g unfolding c0_def c1_def c2_def p1_def p2_def by simp
qed




lemma never_throws:
  "wp m s (\<lambda>r s'. case r of Inl e \<Rightarrow> False | Inr x \<Rightarrow> P x s') \<Longrightarrow> \<exists>x. fst (m s) = Inr x"
  by (auto simp: wp_def split: prod.splits sum.splits)

lemma never_throws_result:
  "wp m s (\<lambda>r s'. case r of Inl e \<Rightarrow> False | Inr (Failure msg) \<Rightarrow> P msg s' | Inr (Success x) \<Rightarrow> Q x s')
   \<Longrightarrow> \<exists>x. fst (m s) = Inr x"
  by (auto simp: wp_def split: prod.splits sum.splits)

text \<open>
  C10.  Each of the nine public service operations, on every input (malformed payloads are the
  values the parameters range over) and under every storage-fault oracle, returns a value, a
  result object or a cashback summary; none lets an exception reach the caller.  The model
  functions are total, so each call does return.
\<close>
theorem operations_return_results:
  "(\<exists>r. fst (PaymentService_transferMoney fromUser toUser a s) = Inr r) \<and>
   (\<exists>r. fst (processPayment u m a s) = Inr r) \<and>
   (\<exists>r. fst (topUpWallet u a s) = Inr r) \<and>
   (\<exists>r. fst (processQRPayment now u q s) = Inr r) \<and>
   (\<exists>r. fst (createEqualSplit u t ds s) = Inr r) \<and>
   (\<exists>r. fst (createWeightedSplit u t dw s) = Inr r) \<and>
   (\<exists>r. fst (settleBillSplit i u s) = Inr r) \<and>
   (\<exists>r. fst (cancelBillSplit i u s) = Inr r) \<and>
   (\<exists>r. fst (calculateAndApplyCashback day u m a p s) = Inr r)"
proof (intro conjI)
  show "\<exists>r. fst (PaymentService_transferMoney fromUser toUser a s) = Inr r"
    by (rule never_throws_result[OF transferMoney_wp])
  show "\<exists>r. fst (processPayment u m a s) = Inr r"
    by (rule never_throws_result[OF processPayment_wp])
  show "\<exists>r. fst (topUpWallet u a s) = Inr r"
    by (rule never_throws_result[OF topUpWallet_wp])
  show "\<exists>r. fst (processQRPayment now u q s) = Inr r"
    by (rule never_throws_result[OF processQRPayment_wp])
  show "\<exists>r. fst (createEqualSplit u t ds s) = Inr r"
    by (rule never_throws_result[OF createEqualSplit_wp])
  show "\<exists>r. fst (createWeightedSplit u t dw s) = Inr r"
    by (rule never_throws_result[OF createWeightedSplit_wp])
  show "\<exists>r. fst (settleBillSplit i u s) = Inr r"
    by (rule never_throws[OF settleBillSplit_wp])
  show "\<exists>r. fst (cancelBillSplit i u s) = Inr r"
    by (rule never_throws_result[OF cancelBillSplit_wp])
  show "\<exists>r. fst (calculateAndApplyCashback day u m a p s) = Inr r"
    by (rule never_throws[OF calculateAndApplyCashback_wp])
qed

text \<open>A run of nine operations on the demonstration data, and four debits that are not covered.\<close>
theorem balances_never_negative_witness:
  "wallets_ok (store demo) \<and> wallets_ok (store (run demo_ops demo)) \<and>
   balance_of (store demo) ''U3'' = Some 30 \<and>
   (\<exists>msg. fst (PaymentService_transferMoney ''U3'' ''U1'' 40 demo) = Inr (Failure msg)) \<and>
   store (snd (PaymentService_transferMoney ''U3'' ''U1'' 40 demo)) = store demo \<and>
   (\<exists>msg. fst (processPayment ''U3'' ''M1'' 40 demo) = Inr (Failure msg)) \<and>
   store (snd (processPayment ''U3'' ''M1'' 40 demo)) = store demo \<and>
   (\<exists>msg. fst (processQRPayment 0 ''U3'' (Info demo_qr) demo) = Inr (Failure msg)) \<and>
   store (snd (processQRPayment 0 ''U3'' (Info demo_qr) demo)) = store demo \<and>
   (\<exists>msg. fst (settleBillSplit 2 ''U3'' demo) = Inr (Failure msg)) \<and>
   store (snd (settleBillSplit 2 ''U3'' demo)) = store demo"
proof -
  have h1: "wallets_ok (store demo)" by code_simp
  have h2: "balance_of (store demo) ''U3'' = Some 30" by code_simp
  have h3: "qr_amount demo_qr = Amount 40" by code_simp
  have h4: "SELECT_bill_split 2 (store demo) = Some demo_split2" by code_simp
  have h5: "shareAmount demo_split2 = 45" by code_simp
  note t = balances_never_negative[where s = demo and ops = demo_ops and u = "''U3''" and a = 40
      and T = "''U1''" and m = "''M1''" and qi = demo_qr and now = 0 and i = 2]
  from t h1 h2 h3 h4 h5 show ?thesis by simp
qed



text \<open>
  The first evaluation for U1 applies CB1 and the first-time rule CB2; the replay applies CB1 alone.
\<close>
theorem first_time_only_once_witness:
  "distinct (map rule_id (cashback_rules (store demo))) \<and>
   demo_cb2 \<in> set (cashback_rules (store demo)) \<and> first_time_only demo_cb2 \<and>
   fst (calculateAndApplyCashback 0 ''U1'' ''M1'' 20 ''TX_PAY_1'' demo) =
     Inr \<lparr>cashbackAmount = 21, applied = True, appliedRules = [(''CB1'', 1), (''CB2'', 20)]\<rparr> \<and>
   fst (calculateAndApplyCashback 0 ''U1'' ''M1'' 20 ''TX_PAY_1''
          (snd (calculateAndApplyCashback 0 ''U1'' ''M1'' 20 ''TX_PAY_1'' demo))) =
     Inr \<lparr>cashbackAmount = 1, applied = True, appliedRules = [(''CB1'', 1)]\<rparr> \<and>
   COUNT_cashback ''U1'' ''CB2'' (store demo) = 0 \<and>
   COUNT_cashback ''U1'' ''CB2''
     (store (snd (calculateAndApplyCashback 0 ''U1'' ''M1'' 20 ''TX_PAY_1''
                   (snd (calculateAndApplyCashback 0 ''U1'' ''M1'' 20 ''TX_PAY_1'' demo))))) = 1"
proof -
  let ?s1 = "snd (calculateAndApplyCashback 0 ''U1'' ''M1'' 20 ''TX_PAY_1'' demo)"
  let ?s2 = "snd (calculateAndApplyCashback 0 ''U1'' ''M1'' 20 ''TX_PAY_1'' ?s1)"
  let ?r1 = "\<lparr>cashbackAmount = 21, applied = True, appliedRules = [(''CB1'', 1), (''CB2'', 20)]\<rparr>"
  let ?r2 = "\<lparr>cashbackAmount = 1, applied = True, appliedRules = [(''CB1'', 1::rat)]\<rparr>"
  have d: "distinct (map rule_id (cashback_rules (store demo)))" by code_simp
  have m: "demo_cb2 \<in> set (cashback_rules (store demo))" by code_simp
  have ft: "first_time_only demo_cb2" by code_simp
  have f1: "fst (calculateAndApplyCashback 0 ''U1'' ''M1'' 20 ''TX_PAY_1'' demo) = Inr ?r1"
    by code_simp
  have f2: "fst (calculateAndApplyCashback 0 ''U1'' ''M1'' 20 ''TX_PAY_1'' ?s1) = Inr ?r2"
    by code_simp
  have h1: "calculateAndApplyCashback 0 ''U1'' ''M1'' 20 ''TX_PAY_1'' demo = (Inr ?r1, ?s1)"
    using f1 by (metis prod.collapse)
  have h2: "calculateAndApplyCashback 0 ''U1'' ''M1'' 20 ''TX_PAY_1'' ?s1 = (Inr ?r2, ?s2)"
    using f2 by (metis prod.collapse)
  have id: "rule_id demo_cb2 = ''CB2''" by code_simp
  from first_time_only_once[OF d m ft h1 h2]
  have "COUNT_cashback ''U1'' ''CB2'' (store demo) = 0 \<and> COUNT_cashback ''U1'' ''CB2'' (store ?s2) = 1"
    by (auto simp: id)
  with d m ft f1 f2 show ?thesis by simp
qed

text \<open>
  C3.  \<open>calculateAndApplyCashback\<close> inserts the cashback Transaction
  (\<open>transactionRepository.create\<close>) and credits the wallet (\<open>db.run\<close>) as two separate statements,
  outside any \<open>transaction\<close> bundle.  When storage rejects the second one, the cashback record of 1
  stays in \<open>transactions\<close> while no wallet balance has changed, and the caller is told that no
  cashback was applied.  In contrast a payment whose bundle is rejected leaves the store as it was.
\<close>
theorem cashback_record_without_credit:
  "fst (calculateAndApplyCashback 0 ''U1'' ''M1'' 20 ''TX_PAY_1''
         (demo\<lparr>faults := [False, False, False, False, True]\<rparr>)) =
     Inr \<lparr>cashbackAmount = 0, applied = False, appliedRules = []\<rparr> \<and>
   wallets (store (snd (calculateAndApplyCashback 0 ''U1'' ''M1'' 20 ''TX_PAY_1''
         (demo\<lparr>faults := [False, False, False, False, True]\<rparr>)))) = wallets (store demo) \<and>
   transactions (store (snd (calculateAndApplyCashback 0 ''U1'' ''M1'' 20 ''TX_PAY_1''
         (demo\<lparr>faults := [False, False, False, False, True]\<rparr>)))) =
     transactions (store demo) @
       [\<lparr>txId = ''TX_CB_1b9d6bcd'', userId = ''U1'', merchantId = Some ''M1'', amount = 1,
         currency = ''TRY'', txType = cashback, status = tx_ok,
         meta = [(''rule_id'', ''CB1''), (''original_tx_id'', ''TX_PAY_1'')]\<rparr>] \<and>
   fst (processPayment ''U1'' ''M1'' 20 (demo\<lparr>faults := [False, False, True]\<rparr>)) =
     Inr (Failure PaymentError) \<and>
   store (snd (processPayment ''U1'' ''M1'' 20 (demo\<lparr>faults := [False, False, True]\<rparr>))) = store demo"
  by code_simp

text \<open>
  C4.  \<open>settleBillSplit\<close> rejects a split only when \<open>isSettled()\<close> holds.  Split 1 of the
  demonstration data is cancelled; settling it as its debtor U2 succeeds, moves 10 from U2 to U1,
  inserts two Transaction records and sets the status of the split to settled.
\<close>
theorem settle_cancelled_split:
  "SELECT_bill_split 1 (store demo) = Some demo_split1 \<and> bs_status demo_split1 = cancelled \<and>
   fst (settleBillSplit 1 ''U2'' demo) =
     Inr (Success \<lparr>st_splitId = 1, st_amount = 10, st_payerUserId = ''U1'', st_debtorUserId = ''U2'',
                   transferTransactionId = ''TX_SPLIT_1b9d6bcd''\<rparr>) \<and>
   balance_of (store demo) ''U2'' = Some 90 \<and> balance_of (store demo) ''U1'' = Some 250 \<and>
   balance_of (store (snd (settleBillSplit 1 ''U2'' demo))) ''U2'' = Some 80 \<and>
   balance_of (store (snd (settleBillSplit 1 ''U2'' demo))) ''U1'' = Some 260 \<and>
   map bs_status (bill_splits (store (snd (settleBillSplit 1 ''U2'' demo)))) = [settled, pending] \<and>
   length (transactions (store (snd (settleBillSplit 1 ''U2'' demo)))) =
     length (transactions (store demo)) + 2"
  by code_simp

text \<open>
  C9.  The services change balances by \<open>balance = balance + ?\<close> in SQL and round nothing.  All
  balances of the demonstration data have two decimals; after the successful top-up of 0.001 the
  wallet of U1 holds 250.001.  \<open>Wallet.credit\<close>, the mutator that rounds, would have kept 250.
\<close>
theorem topup_third_decimal:
  "list_all (\<lambda>w. two_decimals (balance w)) (wallets (store demo)) \<and>
   fst (topUpWallet ''U1'' (1 / 1000) demo) =
     Inr (Success \<lparr>transactionId = ''TX_TOP_1b9d6bcd'', pd_amount = 1 / 1000, pd_merchantId = None,
                   newBalance = 250001 / 1000\<rparr>) \<and>
   balance_of (store (snd (topUpWallet ''U1'' (1 / 1000) demo))) ''U1'' = Some (250001 / 1000) \<and>
   \<not> two_decimals (250001 / 1000) \<and>
   credit \<lparr>w_userId = ''U1'', balance = 250, w_currency = ''TRY''\<rparr> (1 / 1000) =
     Inr \<lparr>w_userId = ''U1'', balance = 250, w_currency = ''TRY''\<rparr>"
  by code_simp

end
